theory Spec2Isabelle
  imports Complex_Main "HOL-Library.Sublist"
begin

section \<open>The email-to-invoice pipeline of lnvy\<close>

text \<open>
  A shallow embedding of the two edge functions
  \<^verbatim>\<open>supabase/functions/gmail-sync/index.ts\<close> and
  \<^verbatim>\<open>supabase/functions/classify-document/index.ts\<close>, of the tables they read and
  write (\<^verbatim>\<open>supabase/migrations\<close>), and of the replies of the services they call.
  Each handler is a function from the database and the replies of the outside world to
  its HTTP answer, the database it leaves behind, and the list of outside calls it made.
\<close>

subsection \<open>JavaScript values\<close>

text \<open>
  An instant is a number of milliseconds since the epoch, as \<^verbatim>\<open>Date.now()\<close> gives it.
  A JSON field that may be \<^verbatim>\<open>undefined\<close> or \<^verbatim>\<open>null\<close> is an \<open>option\<close>.
  \<^verbatim>\<open>a || b\<close> on strings yields \<open>b\<close> when \<open>a\<close> is absent or empty.
\<close>

type_synonym instant = int

definition truthy :: "string option \<Rightarrow> bool" where
  "truthy s = (case s of None \<Rightarrow> False | Some v \<Rightarrow> v \<noteq> [])"

definition js_or :: "string option \<Rightarrow> string \<Rightarrow> string" where
  "js_or s d = (case s of None \<Rightarrow> d | Some v \<Rightarrow> if v = [] then d else v)"

definition js_or_num :: "rat option \<Rightarrow> rat \<Rightarrow> rat" where
  "js_or_num x d = (case x of None \<Rightarrow> d | Some v \<Rightarrow> if v = 0 then d else v)"

text \<open>\<^verbatim>\<open>null\<close> compares as \<open>0\<close> under \<^verbatim>\<open>>=\<close>.\<close>

definition js_num :: "int option \<Rightarrow> int" where
  "js_num x = (case x of None \<Rightarrow> 0 | Some v \<Rightarrow> v)"

definition js_ge :: "int option \<Rightarrow> int option \<Rightarrow> bool" where
  "js_ge a b = (js_num b \<le> js_num a)"

text \<open>\<^verbatim>\<open>s.includes(sub)\<close>: \<open>sub\<close> occurs in \<open>s\<close> as a contiguous run.\<close>

primrec str_includes :: "string \<Rightarrow> string \<Rightarrow> bool" where
  "str_includes [] sub = (sub = [])"
| "str_includes (c # cs) sub = (prefix sub (c # cs) \<or> str_includes cs sub)"

text \<open>\<^verbatim>\<open>.single()\<close> of the database client: the row when exactly one row matches.\<close>

definition single :: "'a list \<Rightarrow> 'a option" where
  "single rows = (case rows of [r] \<Rightarrow> Some r | _ \<Rightarrow> None)"

subsection \<open>Dates\<close>

text \<open>
  \<^verbatim>\<open>toISOString().split('T')[0]\<close> is the UTC calendar date of an instant. The civil
  date of a day number follows the proleptic Gregorian calendar; years outside
  \<open>0..9999\<close> are printed with a sign and six digits.
\<close>

definition ms_per_day :: int where
  "ms_per_day = 24 * 60 * 60 * 1000"

definition civil_from_days :: "int \<Rightarrow> int \<times> int \<times> int" where
  "civil_from_days z =
     (let z1 = z + 719468;
          era = z1 div 146097;
          doe = z1 mod 146097;
          yoe = (doe - doe div 1460 + doe div 36524 - doe div 146096) div 365;
          doy = doe - (365 * yoe + yoe div 4 - yoe div 100);
          mp = (5 * doy + 2) div 153;
          d = doy - (153 * mp + 2) div 5 + 1;
          m = (if mp < 10 then mp + 3 else mp - 9);
          y = yoe + era * 400
      in (if m \<le> 2 then y + 1 else y, m, d))"

definition days_from_civil :: "int \<Rightarrow> int \<Rightarrow> int \<Rightarrow> int" where
  "days_from_civil y m d =
     (let y1 = (if m \<le> 2 then y - 1 else y);
          era = y1 div 400;
          yoe = y1 mod 400;
          doy = (153 * (if 2 < m then m - 3 else m + 9) + 2) div 5 + d - 1;
          doe = yoe * 365 + yoe div 4 - yoe div 100 + doy
      in era * 146097 + doe - 719468)"

definition digit_char :: "int \<Rightarrow> char" where
  "digit_char n = ''0123456789'' ! nat (n mod 10)"

definition pad2 :: "int \<Rightarrow> string" where
  "pad2 n = [digit_char (n div 10), digit_char n]"

definition pad4 :: "int \<Rightarrow> string" where
  "pad4 n = pad2 (n div 100) @ pad2 n"

definition pad6 :: "int \<Rightarrow> string" where
  "pad6 n = pad2 (n div 10000) @ pad4 n"

definition iso_year :: "int \<Rightarrow> string" where
  "iso_year y =
     (if 0 \<le> y \<and> y \<le> 9999 then pad4 y
      else if y < 0 then ''-'' @ pad6 (- y) else ''+'' @ pad6 y)"

definition iso_date :: "instant \<Rightarrow> string" where
  "iso_date t =
     (case civil_from_days (t div ms_per_day) of
        (y, m, d) \<Rightarrow> iso_year y @ ''-'' @ pad2 m @ ''-'' @ pad2 d)"

text \<open>\<^verbatim>\<open>.replace(/-/g, '/')\<close>\<close>

definition slashes :: "string \<Rightarrow> string" where
  "slashes s = map (\<lambda>c. if c = CHR ''-'' then CHR ''/'' else c) s"

text \<open>
  \<^verbatim>\<open>d.setFullYear(d.getFullYear() - 1)\<close>: same month, day and time of day, one year
  back, the local time zone of the runtime being UTC; 29 February lands on 1 March.
\<close>

definition one_year_before :: "instant \<Rightarrow> instant" where
  "one_year_before t =
     (case civil_from_days (t div ms_per_day) of
        (y, m, d) \<Rightarrow> days_from_civil (y - 1) m d * ms_per_day + t mod ms_per_day)"

text \<open>The decimal text of a number, as a template literal prints it.\<close>

function show_digits :: "int \<Rightarrow> string" where
  "show_digits n = (if n < 10 then [digit_char n]
                    else show_digits (n div 10) @ [digit_char n])"
  by pat_completeness auto
termination
  by (relation "measure nat") auto

declare show_digits.simps [simp del]

definition show_int :: "int \<Rightarrow> string" where
  "show_int i = (if i < 0 then ''-'' @ show_digits (- i) else show_digits i)"

text \<open>
  \<^verbatim>\<open>new Date(t).toISOString()\<close> throws a RangeError when \<open>t\<close> is beyond 8.64e15 ms
  from the epoch (and when \<open>t\<close> is \<^verbatim>\<open>NaN\<close>, which the callers treat separately).
\<close>

definition valid_time :: "instant \<Rightarrow> bool" where
  "valid_time t = (\<bar>t\<bar> \<le> 8640000000000000)"

subsection \<open>Fixed texts\<close>

text \<open>The Hebrew literals of the source, as their UTF-8 bytes.\<close>

definition kw_invoice_he :: string where
  "kw_invoice_he = [CHR 0xD7, CHR 0x97, CHR 0xD7, CHR 0xA9, CHR 0xD7, CHR 0x91, CHR 0xD7, CHR 0x95,
                    CHR 0xD7, CHR 0xA0, CHR 0xD7, CHR 0x99, CHR 0xD7, CHR 0xAA]"

definition kw_receipt_he :: string where
  "kw_receipt_he = [CHR 0xD7, CHR 0xA7, CHR 0xD7, CHR 0x91, CHR 0xD7, CHR 0x9C, CHR 0xD7, CHR 0x94]"

definition unknown_supplier :: string where
  "unknown_supplier = [CHR 0xD7, CHR 0x9C, CHR 0xD7, CHR 0x90, CHR 0x20, CHR 0xD7, CHR 0x96,
                       CHR 0xD7, CHR 0x95, CHR 0xD7, CHR 0x94, CHR 0xD7, CHR 0x94]"

definition default_document_type :: string where
  "default_document_type = kw_invoice_he @ [CHR 0x20, CHR 0xD7, CHR 0x9E, CHR 0xD7, CHR 0xA1]"

definition default_business_type :: string where
  "default_business_type = [CHR 0xD7, CHR 0xA2, CHR 0xD7, CHR 0x95, CHR 0xD7, CHR 0xA1, CHR 0xD7,
                            CHR 0xA7, CHR 0x20, CHR 0xD7, CHR 0x9E, CHR 0xD7, CHR 0x95, CHR 0xD7,
                            CHR 0xA8, CHR 0xD7, CHR 0xA9, CHR 0xD7, CHR 0x94]"

definition default_category :: string where
  "default_category = [CHR 0xD7, CHR 0x9B, CHR 0xD7, CHR 0x9C, CHR 0xD7, CHR 0x9C, CHR 0xD7, CHR 0x99]"

definition status_new :: string where
  "status_new = [CHR 0xD7, CHR 0x97, CHR 0xD7, CHR 0x93, CHR 0xD7, CHR 0xA9]"

definition entry_digital :: string where
  "entry_digital = [CHR 0xD7, CHR 0x93, CHR 0xD7, CHR 0x99, CHR 0xD7, CHR 0x92, CHR 0xD7, CHR 0x99,
                    CHR 0xD7, CHR 0x98, CHR 0xD7, CHR 0x9C, CHR 0xD7, CHR 0x99]"

subsection \<open>Tables\<close>

text \<open>
  The rows as the handlers read and write them. \<^verbatim>\<open>gmail_tokens\<close> is
  \<^verbatim>\<open>UNIQUE(user_id)\<close>; \<^verbatim>\<open>processed_emails\<close> is \<^verbatim>\<open>UNIQUE(user_id, gmail_message_id)\<close>.
  The first migration adds \<^verbatim>\<open>gmail_last_sync\<close> to \<^verbatim>\<open>profiles\<close>; \<^verbatim>\<open>gmail_tokens\<close> has no
  such column. The columns \<^verbatim>\<open>id\<close>, \<^verbatim>\<open>created_at\<close>, \<^verbatim>\<open>updated_at\<close> and
  \<^verbatim>\<open>processed_at\<close>, which the database fills in, and \<^verbatim>\<open>gmail_connected\<close> and
  \<^verbatim>\<open>gmail_email\<close> of \<^verbatim>\<open>profiles\<close>, which the two handlers neither read nor write, are
  left out. The columns that the migration adds to \<^verbatim>\<open>profiles\<close> have no \<^verbatim>\<open>NOT NULL\<close>,
  so they may be null.
  The database answers every read and write; a write is refused only by the
  uniqueness constraint of \<^verbatim>\<open>processed_emails\<close> or, for \<^verbatim>\<open>invoices\<close>, as the outside
  world decides. The referenced users exist.
\<close>

record gmail_token =
  user_id :: string
  access_token :: string
  refresh_token :: string
  token_expiry :: instant
  gmail_email :: string

record processed_email =
  pe_user_id :: string
  email_id :: string
  gmail_message_id :: string
  invoice_id :: "nat option"
  status :: string
  rejection_reason :: "string option"

record invoice =
  inv_id :: nat
  inv_user_id :: string
  supplier_name :: string
  document_number :: string
  document_type :: string
  document_date :: string
  intake_date :: string
  total_amount :: rat
  business_type :: string
  category :: string
  inv_status :: string
  entry_method :: string
  image_url :: "string option"

record profile =
  profile_id :: string
  gmail_last_sync :: "instant option"
  document_count :: "int option"
  document_limit :: "int option"

record database =
  gmail_tokens :: "gmail_token list"
  processed_emails :: "processed_email list"
  invoices :: "invoice list"
  profiles :: "profile list"

text \<open>
  An insert into \<^verbatim>\<open>processed_emails\<close> that would break the uniqueness constraint is
  refused: the client returns the error as a value and the table is left as it was.
\<close>

definition same_key :: "processed_email \<Rightarrow> processed_email \<Rightarrow> bool" where
  "same_key r r' = (pe_user_id r = pe_user_id r' \<and> gmail_message_id r = gmail_message_id r')"

definition insert_processed_email :: "processed_email \<Rightarrow> database \<Rightarrow> string option \<times> database" where
  "insert_processed_email r db =
     (if list_ex (same_key r) (processed_emails db)
      then (Some ''duplicate key value violates unique constraint'', db)
      else (None, db\<lparr>processed_emails := processed_emails db @ [r]\<rparr>))"

text \<open>\<^verbatim>\<open>.update(..).eq('user_id', uid).eq('gmail_message_id', mid)\<close>\<close>

definition update_processed_emails ::
  "string \<Rightarrow> string \<Rightarrow> (processed_email \<Rightarrow> processed_email) \<Rightarrow> database \<Rightarrow> database" where
  "update_processed_emails uid mid f db =
     db\<lparr>processed_emails :=
          map (\<lambda>r. if pe_user_id r = uid \<and> gmail_message_id r = mid then f r else r)
              (processed_emails db)\<rparr>"

text \<open>\<^verbatim>\<open>.from('gmail_tokens').update(..).eq('user_id', uid)\<close>\<close>

definition update_gmail_tokens ::
  "string \<Rightarrow> (gmail_token \<Rightarrow> gmail_token) \<Rightarrow> database \<Rightarrow> database" where
  "update_gmail_tokens uid f db =
     db\<lparr>gmail_tokens := map (\<lambda>r. if user_id r = uid then f r else r) (gmail_tokens db)\<rparr>"

text \<open>
  \<^verbatim>\<open>tokenData.gmail_last_sync\<close>: the row that \<^verbatim>\<open>select('*')\<close> returns from
  \<^verbatim>\<open>gmail_tokens\<close> has the columns of that table, so the property is \<^verbatim>\<open>undefined\<close>.
\<close>

definition tokenData_gmail_last_sync :: "gmail_token \<Rightarrow> instant option" where
  "tokenData_gmail_last_sync tokenData = None"

text \<open>
  \<^verbatim>\<open>.from('gmail_tokens').update({ gmail_last_sync: t }).eq('user_id', uid)\<close>: the
  update names a column that \<^verbatim>\<open>gmail_tokens\<close> does not have. The database refuses it,
  the client returns the error as a value, and no row changes.
\<close>

definition update_gmail_last_sync :: "string \<Rightarrow> instant \<Rightarrow> database \<Rightarrow> string option \<times> database" where
  "update_gmail_last_sync uid t db =
     (Some ''Could not find the gmail_last_sync column of gmail_tokens in the schema cache'', db)"

text \<open>
  The insert into \<^verbatim>\<open>invoices\<close> returns the stored row with its generated id, or the
  error of the database. The table's own constraints are not part of these sources,
  so whether the insert is refused is a reply of the outside world.
\<close>

definition insert_invoice :: "string option \<Rightarrow> invoice \<Rightarrow> database \<Rightarrow> (string + invoice) \<times> database" where
  "insert_invoice refusal row db =
     (case refusal of
        Some e \<Rightarrow> (Inl e, db)
      | None \<Rightarrow>
          (let stored = row\<lparr>inv_id := length (invoices db)\<rparr>
           in (Inr stored, db\<lparr>invoices := invoices db @ [stored]\<rparr>)))"

text \<open>
  \<^verbatim>\<open>increment_document_count\<close> of the second migration:
  \<^verbatim>\<open>SET document_count = COALESCE(document_count, 0) + 1 WHERE id = user_id_param\<close>.
\<close>

definition increment_document_count :: "string \<Rightarrow> database \<Rightarrow> database" where
  "increment_document_count uid db =
     db\<lparr>profiles :=
          map (\<lambda>p. if profile_id p = uid
                    then p\<lparr>document_count :=
                             Some ((case document_count p of None \<Rightarrow> 0 | Some n \<Rightarrow> n) + 1)\<rparr>
                    else p)
              (profiles db)\<rparr>"

subsection \<open>Outside calls\<close>

text \<open>
  The request that gmail-sync posts to classify-document, and the calls that leave the
  two functions, in the order they are made. A bearer token is \<open>None\<close> when the handler
  holds \<^verbatim>\<open>undefined\<close> in its place.
\<close>

record classify_request =
  rq_user_id :: string
  file_data :: "string option"
  file_type :: string
  filename :: string
  source :: string
  rq_gmail_message_id :: "string option"

datatype event =
    Token_Refresh string
  | Gmail_Search "string option" string
  | Gmail_Get_Message "string option" string
  | Gmail_Get_Attachment "string option" string "string option"
  | Classify_Document classify_request
  | OpenAI_Call string string

text \<open>
  An awaited call either throws (the request fails, the body is not JSON, or a field
  the handler dereferences is missing) or yields the decoded body.
\<close>

datatype 'a fetched = Threw string | Got 'a

subsection \<open>classify-document\<close>

text \<open>
  The verdict as the handler reads it from the parsed JSON: \<open>is_invoice\<close> is the
  truthiness of the field, every other field may be absent.
\<close>

record extracted =
  d_supplier_name :: "string option"
  d_document_number :: "string option"
  d_document_date :: "string option"
  d_total_amount :: "rat option"
  d_business_type :: "string option"
  d_category :: "string option"

record classification =
  is_invoice :: bool
  c_document_type :: "string option"
  c_rejection_reason :: "string option"
  c_data :: "extracted option"

text \<open>
  The reply of the vision model: the request throws, the status is not ok (with the
  body's text), or the message content is handed to \<^verbatim>\<open>JSON.parse\<close>, which throws
  (\<open>None\<close>) or yields a verdict.
\<close>

datatype openai_reply =
    OpenAI_Threw string
  | OpenAI_Not_Ok string
  | OpenAI_Content "classification option"

record classify_world =
  cw_now :: instant
  openai :: openai_reply
  invoice_refusal :: "string option"

text \<open>The answer: status 500 with \<^verbatim>\<open>{error}\<close>, or the verdict, with \<^verbatim>\<open>invoice_id\<close> when one was made.\<close>

datatype classify_response =
    Classify_Error string
  | Classify_Ok classification "nat option"

text \<open>Lines 137 to 150: the row built from the verdict.\<close>

definition invoiceData :: "instant \<Rightarrow> string \<Rightarrow> classification \<Rightarrow> extracted \<Rightarrow> invoice" where
  "invoiceData t uid c d =
     \<lparr>inv_id = 0,
      inv_user_id = uid,
      supplier_name = js_or (d_supplier_name d) unknown_supplier,
      document_number = js_or (d_document_number d) (''AUTO-'' @ show_int t),
      document_type = js_or (c_document_type c) default_document_type,
      document_date = js_or (d_document_date d) (iso_date t),
      intake_date = iso_date t,
      total_amount = js_or_num (d_total_amount d) 0,
      business_type = js_or (d_business_type d) default_business_type,
      category = js_or (d_category d) default_category,
      inv_status = status_new,
      entry_method = entry_digital,
      image_url = None\<rparr>"

text \<open>\<^verbatim>\<open>if (gmail_message_id) { await supabase.from('processed_emails').update(..) }\<close>\<close>

definition update_ledger_of ::
  "classify_request \<Rightarrow> (processed_email \<Rightarrow> processed_email) \<Rightarrow> database \<Rightarrow> database" where
  "update_ledger_of rq f db =
     (case rq_gmail_message_id rq of
        None \<Rightarrow> db
      | Some mid \<Rightarrow> if mid = [] then db else update_processed_emails (rq_user_id rq) mid f db)"

text \<open>Lines 136 to 182: the verdict is an invoice and carries data.\<close>

definition materialize ::
  "classify_world \<Rightarrow> database \<Rightarrow> classify_request \<Rightarrow> classification \<Rightarrow> extracted
     \<Rightarrow> classify_response \<times> database" where
  "materialize w db rq c d =
     (case insert_invoice (invoice_refusal w) (invoiceData (cw_now w) (rq_user_id rq) c d) db of
        (Inl invoiceError, _) \<Rightarrow> (Classify_Error invoiceError, db)
      | (Inr stored, db1) \<Rightarrow>
          (let db2 = update_ledger_of rq
                       (\<lambda>r. r\<lparr>invoice_id := Some (inv_id stored), status := ''processed''\<rparr>) db1;
               db3 = increment_document_count (rq_user_id rq) db2
           in (Classify_Ok c (Some (inv_id stored)), db3)))"

text \<open>Lines 183 to 202: the document is rejected.\<close>

definition reject ::
  "database \<Rightarrow> classify_request \<Rightarrow> classification \<Rightarrow> classify_response \<times> database" where
  "reject db rq c =
     (Classify_Ok c None,
      update_ledger_of rq
        (\<lambda>r. r\<lparr>status := ''rejected'',
                rejection_reason := Some (js_or (c_rejection_reason c) ''Not an invoice'')\<rparr>) db)"

text \<open>Lines 29 to 38: the document limit.\<close>

definition limit_reached :: "database \<Rightarrow> string \<Rightarrow> bool" where
  "limit_reached db uid =
     (case single (filter (\<lambda>p. profile_id p = uid) (profiles db)) of
        None \<Rightarrow> False
      | Some profile \<Rightarrow> js_ge (document_count profile) (document_limit profile))"

text \<open>The handler: its answer, the database it leaves, and the outside calls it made.\<close>

definition classify_document ::
  "classify_world \<Rightarrow> database \<Rightarrow> classify_request
     \<Rightarrow> classify_response \<times> database \<times> event list" where
  "classify_document w db rq =
     (case file_data rq of
        None \<Rightarrow> (Classify_Error ''Missing required fields'', db, [])
      | Some data \<Rightarrow>
          if rq_user_id rq = [] \<or> data = []
          then (Classify_Error ''Missing required fields'', db, [])
          else if limit_reached db (rq_user_id rq)
          then (Classify_Error ''Document limit reached. Please upgrade your plan.'', db, [])
          else
            (case openai w of
               OpenAI_Threw e \<Rightarrow> (Classify_Error e, db, [OpenAI_Call (file_type rq) data])
             | OpenAI_Not_Ok e \<Rightarrow>
                 (Classify_Error (''OpenAI API error: '' @ e), db, [OpenAI_Call (file_type rq) data])
             | OpenAI_Content None \<Rightarrow>
                 (Classify_Error ''Invalid response from AI'', db, [OpenAI_Call (file_type rq) data])
             | OpenAI_Content (Some c) \<Rightarrow>
                 (case (if is_invoice c then c_data c else None) of
                    Some d \<Rightarrow>
                      (case materialize w db rq c d of
                         (answer, db') \<Rightarrow> (answer, db', [OpenAI_Call (file_type rq) data]))
                  | None \<Rightarrow>
                      (case reject db rq c of
                         (answer, db') \<Rightarrow> (answer, db', [OpenAI_Call (file_type rq) data])))))"

subsection \<open>gmail-sync\<close>

text \<open>
  A part of a message, after the interface \<^verbatim>\<open>GmailMessage\<close>; a full message is its
  \<^verbatim>\<open>payload.parts\<close>, which may be absent.
\<close>

record part =
  mimeType :: string
  part_filename :: string
  attachmentId :: "string option"

text \<open>
  The reply of the token endpoint. \<open>rr_ok\<close> is the \<^verbatim>\<open>ok\<close> flag of the response (status
  200 to 299), which the handler never reads; \<open>rr_access_token\<close> is the field
  \<^verbatim>\<open>access_token\<close> of the body, \<open>None\<close> when it is absent (the update then leaves the
  stored one, since an undefined field is not sent); \<open>rr_expires_in\<close> is the number that
  \<^verbatim>\<open>newTokens.expires_in * 1000\<close> multiplies, \<open>None\<close> when the product is \<^verbatim>\<open>NaN\<close>
  (the field is missing or not numeric).
\<close>

record refresh_reply =
  rr_ok :: bool
  rr_access_token :: "string option"
  rr_expires_in :: "int option"

text \<open>
  A failed exchange: the request throws, or the endpoint answers with a status that is
  not ok and the error body of OAuth 2.0 (\<^verbatim>\<open>error\<close>, \<^verbatim>\<open>error_description\<close>), which has
  neither \<^verbatim>\<open>access_token\<close> nor \<^verbatim>\<open>expires_in\<close>.
\<close>

definition exchange_failed :: "refresh_reply fetched \<Rightarrow> bool" where
  "exchange_failed r =
     (case r of
        Threw e \<Rightarrow> True
      | Got reply \<Rightarrow>
          \<not> rr_ok reply \<and> rr_access_token reply = None \<and> rr_expires_in reply = None)"

text \<open>
  The outside world of one invocation: the clock before the message loop (\<open>now\<close>) and
  at the last update (\<open>now_end\<close>), the replies of the token endpoint, of the mail
  provider and, for each request to classify-document, the world that invocation runs
  in. Within one invocation a reply is a function of the request, and the clock
  readings before the loop are one instant.
\<close>

record sync_world =
  now :: instant
  now_end :: instant
  token_endpoint :: "string \<Rightarrow> refresh_reply fetched"
  gmail_search :: "string option \<Rightarrow> string \<Rightarrow> string list option fetched"
  gmail_message :: "string option \<Rightarrow> string \<Rightarrow> part list option fetched"
  gmail_attachment :: "string option \<Rightarrow> string \<Rightarrow> string option \<Rightarrow> string option fetched"
  classifier :: "classify_request \<Rightarrow> classify_world"

record sync_request =
  sr_user_id :: string
  initial_sync :: bool

text \<open>
  The answer: status 500 with \<^verbatim>\<open>{error}\<close>, or the summary \<^verbatim>\<open>processed\<close>,
  \<^verbatim>\<open>invoices_found\<close>, \<^verbatim>\<open>total_emails\<close>, in this order.
\<close>

datatype sync_response =
    Sync_Error string
  | Sync_Ok nat nat nat

text \<open>
  Lines 56 to 81: the access token to use, refreshed when the stored one has expired.
  \<open>Inl\<close> is the message of what was thrown.
\<close>

definition refresh_access_token ::
  "sync_world \<Rightarrow> database \<Rightarrow> gmail_token \<Rightarrow> (string + string option) \<times> database \<times> event list" where
  "refresh_access_token w db tokenData =
     (if token_expiry tokenData < now w then
        (case token_endpoint w (refresh_token tokenData) of
           Threw e \<Rightarrow> (Inl e, db, [Token_Refresh (refresh_token tokenData)])
         | Got newTokens \<Rightarrow>
             (case rr_expires_in newTokens of
                None \<Rightarrow> (Inl ''Invalid time value'', db, [Token_Refresh (refresh_token tokenData)])
              | Some expires_in \<Rightarrow>
                  if \<not> valid_time (now w + expires_in * 1000)
                  then (Inl ''Invalid time value'', db, [Token_Refresh (refresh_token tokenData)])
                  else
                    (Inr (rr_access_token newTokens),
                     update_gmail_tokens (user_id tokenData)
                       (\<lambda>r. r\<lparr>access_token :=
                                  (case rr_access_token newTokens of
                                     None \<Rightarrow> access_token r
                                   | Some a \<Rightarrow> a),
                               token_expiry := now w + expires_in * 1000\<rparr>) db,
                     [Token_Refresh (refresh_token tokenData)])))
      else (Inr (Some (access_token tokenData)), db, []))"

text \<open>Lines 83 to 97: the search query.\<close>

definition base_query :: string where
  "base_query = ''has:attachment ('' @ kw_invoice_he @ '' OR invoice OR receipt OR ''
                  @ kw_receipt_he @ '')''"

definition build_query :: "instant \<Rightarrow> bool \<Rightarrow> gmail_token \<Rightarrow> string" where
  "build_query t initial tokenData =
     (if initial then
        (let oneYearAgo = one_year_before t;
             dateStr = slashes (iso_date oneYearAgo)
         in base_query @ '' after:'' @ dateStr)
      else
        (let lastSync = (case tokenData_gmail_last_sync tokenData of
                           Some l \<Rightarrow> l
                         | None \<Rightarrow> t - 7 * 24 * 60 * 60 * 1000);
             dateStr = slashes (iso_date lastSync)
         in base_query @ '' after:'' @ dateStr))"

text \<open>The state of the message loop: the database, the two counters, the calls so far.\<close>

record scan_state =
  s_db :: database
  processedCount :: nat
  invoiceCount :: nat
  trace :: "event list"

text \<open>\<^verbatim>\<open>classifyResult.is_invoice\<close>: absent from an error body.\<close>

definition result_is_invoice :: "classify_response \<Rightarrow> bool" where
  "result_is_invoice r = (case r of Classify_Error _ \<Rightarrow> False | Classify_Ok c _ \<Rightarrow> is_invoice c)"

text \<open>Lines 173 to 180: the body posted to classify-document.\<close>

definition classify_body :: "string \<Rightarrow> string \<Rightarrow> part \<Rightarrow> string option \<Rightarrow> classify_request" where
  "classify_body uid mid attachment attachmentData =
     \<lparr>rq_user_id = uid,
      file_data = attachmentData,
      file_type = mimeType attachment,
      filename = part_filename attachment,
      source = ''gmail'',
      rq_gmail_message_id = Some mid\<rparr>"

text \<open>
  Lines 154 to 190: one attachment that passed the test of line 150. The first
  component is the message of an error thrown on the way, if any. The request to
  classify-document reaches that function, whose JSON answer comes back whatever its
  status: the handler does not look at the status.
\<close>

definition fetch_and_classify ::
  "sync_world \<Rightarrow> string \<Rightarrow> string option \<Rightarrow> string \<Rightarrow> scan_state \<Rightarrow> part
     \<Rightarrow> string option \<times> scan_state" where
  "fetch_and_classify w uid tok mid st attachment =
     (let st1 = st\<lparr>trace := trace st @ [Gmail_Get_Attachment tok mid (attachmentId attachment)]\<rparr>
      in case gmail_attachment w tok mid (attachmentId attachment) of
           Threw e \<Rightarrow> (Some e, st1)
         | Got attachmentData \<Rightarrow>
             (let rq = classify_body uid mid attachment attachmentData
              in case classify_document (classifier w rq) (s_db st1) rq of
                   (classifyResult, db', calls) \<Rightarrow>
                     (None,
                      \<lparr>s_db = db',
                       processedCount = processedCount st1 + 1,
                       invoiceCount = (if result_is_invoice classifyResult
                                       then invoiceCount st1 + 1 else invoiceCount st1),
                       trace = trace st1 @ Classify_Document rq # calls\<rparr>)))"

text \<open>
  Lines 148 to 191: the loop over the attachments of one message. An error thrown
  inside the loop ends it; what the loop did before stays done.
\<close>

fun process_attachments ::
  "sync_world \<Rightarrow> string \<Rightarrow> string option \<Rightarrow> string \<Rightarrow> scan_state \<Rightarrow> part list
     \<Rightarrow> string option \<times> scan_state" where
  "process_attachments w uid tok mid st [] = (None, st)"
| "process_attachments w uid tok mid st (attachment # rest) =
     (if \<not> str_includes (mimeType attachment) ''pdf''
         \<and> \<not> str_includes (mimeType attachment) ''image''
      then process_attachments w uid tok mid st rest
      else
        (case fetch_and_classify w uid tok mid st attachment of
           (Some e, st1) \<Rightarrow> (Some e, st1)
         | (None, st1) \<Rightarrow> process_attachments w uid tok mid st1 rest))"

text \<open>Lines 193 to 199 and 204 to 210: the row written for a message. The result of the insert is not read.\<close>

definition mark_email ::
  "string \<Rightarrow> string \<Rightarrow> string \<Rightarrow> string option \<Rightarrow> scan_state \<Rightarrow> scan_state" where
  "mark_email uid mid st reason s =
     s\<lparr>s_db := snd (insert_processed_email
                      \<lparr>pe_user_id = uid, email_id = mid, gmail_message_id = mid,
                       invoice_id = None, status = st, rejection_reason = reason\<rparr>
                      (s_db s))\<rparr>"

text \<open>Lines 142 to 144: the parts that carry a file name and an attachment id.\<close>

definition attachments_of :: "part list option \<Rightarrow> part list" where
  "attachments_of parts =
     (case parts of
        None \<Rightarrow> []
      | Some ps \<Rightarrow> filter (\<lambda>p. part_filename p \<noteq> [] \<and> truthy (attachmentId p)) ps)"

text \<open>Lines 117 to 211: one message of the loop, after the check of line 126.\<close>

definition handle_message ::
  "sync_world \<Rightarrow> string \<Rightarrow> string option \<Rightarrow> scan_state \<Rightarrow> string \<Rightarrow> scan_state" where
  "handle_message w uid tok st mid =
     (let st1 = st\<lparr>trace := trace st @ [Gmail_Get_Message tok mid]\<rparr>
      in case gmail_message w tok mid of
           Threw e \<Rightarrow> mark_email uid mid ''error'' (Some e) st1
         | Got parts \<Rightarrow>
             (case process_attachments w uid tok mid st1 (attachments_of parts) of
                (Some e, st2) \<Rightarrow> mark_email uid mid ''error'' (Some e) st2
              | (None, st2) \<Rightarrow> mark_email uid mid ''processed'' None st2))"

definition process_message ::
  "sync_world \<Rightarrow> string \<Rightarrow> string option \<Rightarrow> scan_state \<Rightarrow> string \<Rightarrow> scan_state" where
  "process_message w uid tok st mid =
     (case single (filter (\<lambda>r. pe_user_id r = uid \<and> gmail_message_id r = mid)
                          (processed_emails (s_db st))) of
        Some existing \<Rightarrow> st
      | None \<Rightarrow> handle_message w uid tok st mid)"

text \<open>
  The handler: its answer, the database it leaves, and the outside calls it made. The
  result of the update of lines 215 to 218 is not read.
\<close>

definition gmail_sync ::
  "sync_world \<Rightarrow> database \<Rightarrow> sync_request \<Rightarrow> sync_response \<times> database \<times> event list" where
  "gmail_sync w db rq =
     (if sr_user_id rq = [] then (Sync_Error ''user_id is required'', db, [])
      else
        (case single (filter (\<lambda>r. user_id r = sr_user_id rq) (gmail_tokens db)) of
           None \<Rightarrow> (Sync_Error ''Gmail not connected'', db, [])
         | Some tokenData \<Rightarrow>
             (case refresh_access_token w db tokenData of
                (Inl e, db1, calls) \<Rightarrow> (Sync_Error e, db1, calls)
              | (Inr accessToken, db1, calls) \<Rightarrow>
                  (let query = build_query (now w) (initial_sync rq) tokenData
                   in case gmail_search w accessToken query of
                        Threw e \<Rightarrow> (Sync_Error e, db1, calls @ [Gmail_Search accessToken query])
                      | Got found \<Rightarrow>
                          (let messages = (case found of None \<Rightarrow> [] | Some ms \<Rightarrow> ms);
                               st = foldl (process_message w (sr_user_id rq) accessToken)
                                      \<lparr>s_db = db1, processedCount = 0, invoiceCount = 0,
                                       trace = calls @ [Gmail_Search accessToken query]\<rparr>
                                      (take 20 messages)
                           in (Sync_Ok (processedCount st) (invoiceCount st) (length messages),
                               snd (update_gmail_last_sync (sr_user_id rq) (now_end w) (s_db st)),
                               trace st))))))"

subsection \<open>Observations on a run\<close>

text \<open>The keys of the ledger, and the constraint \<^verbatim>\<open>UNIQUE(user_id, gmail_message_id)\<close>.\<close>

definition ledger_keys :: "database \<Rightarrow> (string \<times> string) list" where
  "ledger_keys db = map (\<lambda>r. (pe_user_id r, gmail_message_id r)) (processed_emails db)"

definition ledger_unique :: "database \<Rightarrow> bool" where
  "ledger_unique db = distinct (ledger_keys db)"

text \<open>The (user, message) pairs handed to classify-document, in order.\<close>

fun classified :: "event list \<Rightarrow> (string \<times> string) list" where
  "classified [] = []"
| "classified (Classify_Document rq # es) =
     (case rq_gmail_message_id rq of
        Some mid \<Rightarrow> (rq_user_id rq, mid) # classified es
      | None \<Rightarrow> classified es)"
| "classified (_ # es) = classified es"

text \<open>The attachment ids whose data was requested from the mail provider, in order.\<close>

fun requested :: "event list \<Rightarrow> string option list" where
  "requested [] = []"
| "requested (Gmail_Get_Attachment tok mid aid # es) = aid # requested es"
| "requested (_ # es) = requested es"

text \<open>The queries sent to the search of the mail provider, in order.\<close>

fun searched :: "event list \<Rightarrow> string list" where
  "searched [] = []"
| "searched (Gmail_Search tok q # es) = q # searched es"
| "searched (_ # es) = searched es"

text \<open>A ledger row as gmail-sync itself writes it: no invoice id, status \<^verbatim>\<open>processed\<close> or \<^verbatim>\<open>error\<close>.\<close>

definition written_by_sync :: "string \<Rightarrow> processed_email \<Rightarrow> bool" where
  "written_by_sync uid r =
     (pe_user_id r = uid \<and> invoice_id r = None \<and> (status r = ''processed'' \<or> status r = ''error''))"

text \<open>The two tests a part has to pass to be fetched: line 143 and line 150.\<close>

definition passes_filters :: "part \<Rightarrow> bool" where
  "passes_filters p =
     ((part_filename p \<noteq> [] \<and> truthy (attachmentId p))
      \<and> (str_includes (mimeType p) ''pdf'' \<or> str_includes (mimeType p) ''image''))"

subsection \<open>The specification's wording\<close>

text \<open>
  The filter as the specification words it: a file name, an attachment id, and a MIME
  type that is \<^verbatim>\<open>application/pdf\<close> or \<^verbatim>\<open>image/*\<close>.
\<close>

definition spec_retained :: "part \<Rightarrow> bool" where
  "spec_retained p =
     ((part_filename p \<noteq> [] \<and> truthy (attachmentId p))
      \<and> (mimeType p = ''application/pdf'' \<or> prefix ''image/'' (mimeType p)))"

text \<open>The lower bound as the specification words it: the later of the last sync and seven days ago.\<close>

definition spec_lower_bound :: "instant \<Rightarrow> instant \<Rightarrow> instant" where
  "spec_lower_bound t lastSyncAt = max lastSyncAt (t - 7 * ms_per_day)"

subsection \<open>A sample mailbox\<close>

text \<open>
  One user with a valid token, one message with a PDF and a text part, at noon of
  2026-11-02 (UTC).
\<close>

definition noon :: instant where
  "noon = 1793620800000"

definition sample_token :: gmail_token where
  "sample_token =
     \<lparr>user_id = ''u1'', access_token = ''at'', refresh_token = ''rt'',
      token_expiry = noon + 3600000, gmail_email = ''u1@example.com''\<rparr>"

definition sample_db :: "profile list \<Rightarrow> database" where
  "sample_db ps = \<lparr>gmail_tokens = [sample_token], processed_emails = [], invoices = [], profiles = ps\<rparr>"

definition profile_of :: "int \<Rightarrow> int \<Rightarrow> profile" where
  "profile_of c l =
     \<lparr>profile_id = ''u1'', gmail_last_sync = None, document_count = Some c,
      document_limit = Some l\<rparr>"

definition pdf_part :: part where
  "pdf_part = \<lparr>mimeType = ''application/pdf'', part_filename = ''inv.pdf'', attachmentId = Some ''a1''\<rparr>"

definition text_part :: part where
  "text_part = \<lparr>mimeType = ''text/plain'', part_filename = ''note.txt'', attachmentId = Some ''a2''\<rparr>"

definition odf_image_part :: part where
  "odf_image_part =
     \<lparr>mimeType = ''application/vnd.oasis.opendocument.image'', part_filename = ''logo.odi'',
      attachmentId = Some ''a3''\<rparr>"

definition sample_data :: extracted where
  "sample_data =
     \<lparr>d_supplier_name = Some ''ACME'', d_document_number = None, d_document_date = None,
      d_total_amount = Some 117, d_business_type = None, d_category = None\<rparr>"

definition invoice_verdict :: classification where
  "invoice_verdict =
     \<lparr>is_invoice = True, c_document_type = None, c_rejection_reason = None,
      c_data = Some sample_data\<rparr>"

definition bare_verdict :: classification where
  "bare_verdict =
     \<lparr>is_invoice = True, c_document_type = None, c_rejection_reason = None, c_data = None\<rparr>"

definition sample_classifier :: "openai_reply \<Rightarrow> classify_world" where
  "sample_classifier reply = \<lparr>cw_now = noon + 5000, openai = reply, invoice_refusal = None\<rparr>"

definition sample_world :: "part list \<Rightarrow> openai_reply \<Rightarrow> sync_world" where
  "sample_world ps reply =
     \<lparr>now = noon, now_end = noon + 60000,
      token_endpoint = (\<lambda>_. Threw ''unreachable''),
      gmail_search = (\<lambda>_ _. Got (Some [''m1''])),
      gmail_message = (\<lambda>_ _. Got (Some ps)),
      gmail_attachment = (\<lambda>_ _ _. Got (Some ''JVBERi0='')),
      classifier = (\<lambda>_. sample_classifier reply)\<rparr>"

definition sample_request :: sync_request where
  "sample_request = \<lparr>sr_user_id = ''u1'', initial_sync = False\<rparr>"

definition sample_classify_request :: classify_request where
  "sample_classify_request =
     \<lparr>rq_user_id = ''u1'', file_data = Some ''JVBERi0='', file_type = ''application/pdf'',
      filename = ''inv.pdf'', source = ''gmail'', rq_gmail_message_id = Some ''m1''\<rparr>"

text \<open>The state in which the message loop starts on the sample mailbox.\<close>

definition sample_state :: scan_state where
  "sample_state = \<lparr>s_db = sample_db [profile_of 0 5], processedCount = 0, invoiceCount = 0, trace = []\<rparr>"

text \<open>
  The same user with a token that expired a second ago, a refusal of the token
  endpoint and a grant; the mail provider answers the search without \<^verbatim>\<open>messages\<close>.
\<close>

definition expired_db :: database where
  "expired_db =
     \<lparr>gmail_tokens = [sample_token\<lparr>token_expiry := noon - 1000\<rparr>], processed_emails = [],
      invoices = [], profiles = [profile_of 0 5]\<rparr>"

definition refused_reply :: refresh_reply where
  "refused_reply = \<lparr>rr_ok = False, rr_access_token = None, rr_expires_in = None\<rparr>"

definition granted_reply :: refresh_reply where
  "granted_reply = \<lparr>rr_ok = True, rr_access_token = Some ''at2'', rr_expires_in = Some 3600\<rparr>"

definition refresh_world :: "refresh_reply \<Rightarrow> sync_world" where
  "refresh_world reply =
     \<lparr>now = noon, now_end = noon + 60000,
      token_endpoint = (\<lambda>_. Got reply),
      gmail_search = (\<lambda>_ _. Got None),
      gmail_message = (\<lambda>_ _. Threw ''unreachable''),
      gmail_attachment = (\<lambda>_ _ _. Threw ''unreachable''),
      classifier = (\<lambda>_. sample_classifier (OpenAI_Content None))\<rparr>"

text \<open>The sample mailbox three days before noon, then at noon.\<close>

definition sample_world_at :: "instant \<Rightarrow> sync_world" where
  "sample_world_at t = (sample_world [pdf_part] (OpenAI_Content None))\<lparr>now := t, now_end := t + 60000\<rparr>"

section \<open>Properties\<close>

subsection \<open>The document limit\<close>

lemma classify_calls_cases:
  "snd (snd (classify_document w db rq)) = []
   \<or> (\<exists>data. file_data rq = Some data
         \<and> snd (snd (classify_document w db rq)) = [OpenAI_Call (file_type rq) data])"
  by (auto simp: classify_document_def split: option.splits openai_reply.splits prod.splits)

lemma classify_calls_limit:
  assumes "rq_user_id rq \<noteq> []" and "file_data rq = Some data" and "data \<noteq> []"
  shows "snd (snd (classify_document w db rq))
         = (if limit_reached db (rq_user_id rq) then [] else [OpenAI_Call (file_type rq) data])"
  using assms
  by (simp add: classify_document_def split: option.splits openai_reply.splits prod.splits)

lemma classify_blocked:
  assumes "rq_user_id rq \<noteq> []" and "file_data rq = Some data" and "data \<noteq> []"
    and "limit_reached db (rq_user_id rq)"
  shows "classify_document w db rq
         = (Classify_Error ''Document limit reached. Please upgrade your plan.'', db, [])"
  using assms by (simp add: classify_document_def)

text \<open>
  C10: when the read of \<^verbatim>\<open>profiles\<close> yields no row for the user, the limit is not
  checked and the vision model is called all the same. For a request that carries a
  user id and file data, the model is not called exactly when a profile row exists
  whose \<^verbatim>\<open>document_count >= document_limit\<close>, a null column counting as 0 as the
  comparison of the handler has it; for a row with both numbers present that is
  \<open>limit \<le> count\<close>. When the model is not called the answer is the limit error and the
  database is untouched; otherwise the model is called once.
\<close>

theorem limit_blocks_only_with_profile:
  assumes "rq_user_id rq \<noteq> []" and "file_data rq = Some data" and "data \<noteq> []"
  shows "(single (filter (\<lambda>p. profile_id p = rq_user_id rq) (profiles db)) = None
            \<longrightarrow> snd (snd (classify_document w db rq)) = [OpenAI_Call (file_type rq) data])
         \<and> (snd (snd (classify_document w db rq)) = []
              \<longleftrightarrow> (\<exists>profile. single (filter (\<lambda>p. profile_id p = rq_user_id rq) (profiles db))
                                 = Some profile
                             \<and> (case document_limit profile of None \<Rightarrow> 0 | Some l \<Rightarrow> l)
                                \<le> (case document_count profile of None \<Rightarrow> 0 | Some c \<Rightarrow> c)))
         \<and> (single (filter (\<lambda>p. profile_id p = rq_user_id rq) (profiles db)) = Some profile
              \<and> document_count profile = Some c \<and> document_limit profile = Some l
              \<longrightarrow> (snd (snd (classify_document w db rq)) = [] \<longleftrightarrow> l \<le> c))
         \<and> (snd (snd (classify_document w db rq)) \<noteq> []
              \<longrightarrow> snd (snd (classify_document w db rq)) = [OpenAI_Call (file_type rq) data])
         \<and> (snd (snd (classify_document w db rq)) = []
              \<longrightarrow> classify_document w db rq
                    = (Classify_Error ''Document limit reached. Please upgrade your plan.'', db, []))"
proof -
  let ?calls = "snd (snd (classify_document w db rq))"
  let ?row = "single (filter (\<lambda>p. profile_id p = rq_user_id rq) (profiles db))"
  note c = classify_calls_limit [OF assms, of w db]
  have r: "limit_reached db (rq_user_id rq)
      \<longleftrightarrow> (\<exists>profile. ?row = Some profile
             \<and> (case document_limit profile of None \<Rightarrow> 0 | Some l \<Rightarrow> l)
                \<le> (case document_count profile of None \<Rightarrow> 0 | Some c \<Rightarrow> c))"
    by (simp add: limit_reached_def js_ge_def js_num_def split: option.splits)
  have a: "?row = None \<longrightarrow> ?calls = [OpenAI_Call (file_type rq) data]"
    using c r by simp
  have b: "?calls = []
      \<longleftrightarrow> (\<exists>profile. ?row = Some profile
             \<and> (case document_limit profile of None \<Rightarrow> 0 | Some l \<Rightarrow> l)
                \<le> (case document_count profile of None \<Rightarrow> 0 | Some c \<Rightarrow> c))"
    using c r by simp
  have d: "?row = Some profile \<and> document_count profile = Some c \<and> document_limit profile = Some l
      \<longrightarrow> (?calls = [] \<longleftrightarrow> l \<le> c)"
    using b by auto
  have e: "?calls \<noteq> [] \<longrightarrow> ?calls = [OpenAI_Call (file_type rq) data]"
    using c by simp
  have f: "?calls = [] \<longrightarrow> classify_document w db rq
      = (Classify_Error ''Document limit reached. Please upgrade your plan.'', db, [])"
    using c classify_blocked [OF assms, of db w] by simp
  from a b d e f show ?thesis by blast
qed

theorem limit_blocks_only_with_profile_witness:
  "snd (snd (classify_document (sample_classifier (OpenAI_Content (Some invoice_verdict)))
                               (sample_db []) sample_classify_request))
     = [OpenAI_Call ''application/pdf'' ''JVBERi0='']
   \<and> snd (snd (classify_document (sample_classifier (OpenAI_Content (Some invoice_verdict)))
                               (sample_db [profile_of 0 5]) sample_classify_request))
     = [OpenAI_Call ''application/pdf'' ''JVBERi0='']
   \<and> snd (snd (classify_document (sample_classifier (OpenAI_Content (Some invoice_verdict)))
                               (sample_db [profile_of 4 5]) sample_classify_request))
     = [OpenAI_Call ''application/pdf'' ''JVBERi0='']
   \<and> classify_document (sample_classifier (OpenAI_Content (Some invoice_verdict)))
                        (sample_db [profile_of 5 5]) sample_classify_request
     = (Classify_Error ''Document limit reached. Please upgrade your plan.'',
        sample_db [profile_of 5 5], [])"
proof -
  let ?w = "sample_classifier (OpenAI_Content (Some invoice_verdict))"
  let ?c = "\<lambda>db. snd (snd (classify_document ?w db sample_classify_request))"
  have rq: "rq_user_id sample_classify_request \<noteq> []"
    "file_data sample_classify_request = Some ''JVBERi0=''" "''JVBERi0='' \<noteq> []"
    by (simp_all add: sample_classify_request_def)
  have ft: "file_type sample_classify_request = ''application/pdf''"
    by (simp add: sample_classify_request_def)
  have none: "single (filter (\<lambda>p. profile_id p = rq_user_id sample_classify_request)
                             (profiles (sample_db []))) = None"
    by (simp add: sample_db_def single_def)
  have some: "single (filter (\<lambda>p. profile_id p = rq_user_id sample_classify_request)
                             (profiles (sample_db [profile_of c l]))) = Some (profile_of c l)
              \<and> document_count (profile_of c l) = Some c
              \<and> document_limit (profile_of c l) = Some l" for c l
    by (simp add: sample_db_def single_def profile_of_def sample_classify_request_def)
  note a = limit_blocks_only_with_profile [OF rq, of "sample_db []" ?w]
  note b = limit_blocks_only_with_profile [OF rq,
      of "sample_db [profile_of 0 5]" ?w "profile_of 0 5" 0 5]
  note c = limit_blocks_only_with_profile [OF rq,
      of "sample_db [profile_of 4 5]" ?w "profile_of 4 5" 4 5]
  note d = limit_blocks_only_with_profile [OF rq,
      of "sample_db [profile_of 5 5]" ?w "profile_of 5 5" 5 5]
  have first: "?c (sample_db []) = [OpenAI_Call ''application/pdf'' ''JVBERi0='']"
    using a [THEN conjunct1] none ft by (simp only: simp_thms)
  have "?c (sample_db [profile_of 0 5]) = [] \<longleftrightarrow> (5::int) \<le> 0"
    using b [THEN conjunct2, THEN conjunct2, THEN conjunct1] some [of 0 5] by (rule mp)
  then have "?c (sample_db [profile_of 0 5]) \<noteq> []" by simp
  with b [THEN conjunct2, THEN conjunct2, THEN conjunct2, THEN conjunct1]
  have "?c (sample_db [profile_of 0 5]) = [OpenAI_Call (file_type sample_classify_request) ''JVBERi0='']"
    by (rule mp)
  then have second: "?c (sample_db [profile_of 0 5]) = [OpenAI_Call ''application/pdf'' ''JVBERi0='']"
    by (simp only: ft)
  have "?c (sample_db [profile_of 4 5]) = [] \<longleftrightarrow> (5::int) \<le> 4"
    using c [THEN conjunct2, THEN conjunct2, THEN conjunct1] some [of 4 5] by (rule mp)
  then have "?c (sample_db [profile_of 4 5]) \<noteq> []" by simp
  with c [THEN conjunct2, THEN conjunct2, THEN conjunct2, THEN conjunct1]
  have "?c (sample_db [profile_of 4 5]) = [OpenAI_Call (file_type sample_classify_request) ''JVBERi0='']"
    by (rule mp)
  then have third: "?c (sample_db [profile_of 4 5]) = [OpenAI_Call ''application/pdf'' ''JVBERi0='']"
    by (simp only: ft)
  have "?c (sample_db [profile_of 5 5]) = [] \<longleftrightarrow> (5::int) \<le> 5"
    using d [THEN conjunct2, THEN conjunct2, THEN conjunct1] some [of 5 5] by (rule mp)
  then have "?c (sample_db [profile_of 5 5]) = []" by simp
  with d [THEN conjunct2, THEN conjunct2, THEN conjunct2, THEN conjunct2]
  have fourth: "classify_document ?w (sample_db [profile_of 5 5]) sample_classify_request
    = (Classify_Error ''Document limit reached. Please upgrade your plan.'',
       sample_db [profile_of 5 5], [])"
    by (rule mp)
  from first second third fourth show ?thesis by (intro conjI)
qed

subsection \<open>What the ledger records for a classified message\<close>

text \<open>
  C1: an attachment whose verdict is an invoice with data should leave one invoice and
  one ledger row for its message with status \<^verbatim>\<open>processed\<close> and the invoice's id. On
  the code the row does not carry the id. In the sample mailbox, with one PDF that the
  model accepts, classify-document inserts the invoice and updates
  \<^verbatim>\<open>processed_emails\<close> for the message before gmail-sync has inserted any row for it, so
  the update reaches no row; gmail-sync then inserts the row without an invoice id.
\<close>

theorem accepted_invoice_leaves_ledger_unlinked:
  "(case gmail_sync (sample_world [pdf_part] (OpenAI_Content (Some invoice_verdict)))
                    (sample_db [profile_of 0 5]) sample_request of
      (answer, db', calls) \<Rightarrow>
        answer = Sync_Ok 1 1 1
        \<and> map inv_id (invoices db') = [0]
        \<and> map supplier_name (invoices db') = [''ACME'']
        \<and> processed_emails db'
            = [\<lparr>pe_user_id = ''u1'', email_id = ''m1'', gmail_message_id = ''m1'',
                invoice_id = None, status = ''processed'', rejection_reason = None\<rparr>])"
  by code_simp

text \<open>
  C2: a reply of the model that \<^verbatim>\<open>JSON.parse\<close> rejects should end in a ledger row with
  status \<^verbatim>\<open>error\<close> and the parse failure as its reason. On the code classify-document
  does fail, with \<^verbatim>\<open>Invalid response from AI\<close>, and makes no invoice; but gmail-sync
  reads only \<^verbatim>\<open>is_invoice\<close> of the answer, counts the attachment as processed and
  inserts the row with status \<^verbatim>\<open>processed\<close> and no reason.
\<close>

theorem unparsable_reply_is_recorded_as_processed:
  "classify_document (sample_classifier (OpenAI_Content None)) (sample_db [profile_of 0 5])
                     sample_classify_request
     = (Classify_Error ''Invalid response from AI'', sample_db [profile_of 0 5],
        [OpenAI_Call ''application/pdf'' ''JVBERi0=''])
   \<and> (case gmail_sync (sample_world [pdf_part] (OpenAI_Content None))
                       (sample_db [profile_of 0 5]) sample_request of
         (answer, db', calls) \<Rightarrow>
           answer = Sync_Ok 1 0 1
           \<and> invoices db' = []
           \<and> processed_emails db'
               = [\<lparr>pe_user_id = ''u1'', email_id = ''m1'', gmail_message_id = ''m1'',
                   invoice_id = None, status = ''processed'', rejection_reason = None\<rparr>])"
  by code_simp

text \<open>
  C3: for a user at the limit (\<^verbatim>\<open>document_count = 5\<close>, \<^verbatim>\<open>document_limit = 5\<close>) the
  message's ledger row should not be marked \<^verbatim>\<open>processed\<close>. On the code
  classify-document refuses the attachment before any call to the model, and the scan
  makes no such call; but gmail-sync, which does not look at the refusal, inserts the
  row with status \<^verbatim>\<open>processed\<close>.
\<close>

theorem refused_at_limit_is_recorded_as_processed:
  "classify_document (sample_classifier (OpenAI_Content (Some invoice_verdict)))
                     (sample_db [profile_of 5 5]) sample_classify_request
     = (Classify_Error ''Document limit reached. Please upgrade your plan.'',
        sample_db [profile_of 5 5], [])
   \<and> (case gmail_sync (sample_world [pdf_part] (OpenAI_Content (Some invoice_verdict)))
                       (sample_db [profile_of 5 5]) sample_request of
         (answer, db', calls) \<Rightarrow>
           answer = Sync_Ok 1 0 1
           \<and> drop 1 calls
               = [Gmail_Get_Message (Some ''at'') ''m1'',
                  Gmail_Get_Attachment (Some ''at'') ''m1'' (Some ''a1''),
                  Classify_Document sample_classify_request]
           \<and> invoices db' = []
           \<and> processed_emails db'
               = [\<lparr>pe_user_id = ''u1'', email_id = ''m1'', gmail_message_id = ''m1'',
                   invoice_id = None, status = ''processed'', rejection_reason = None\<rparr>])"
  by code_simp

subsection \<open>A failed token refresh\<close>

text \<open>
  C4: when the stored token has expired and the exchange of the refresh token fails,
  the whole scan stops with a single error: the one the request threw, or the
  \<^verbatim>\<open>RangeError\<close> of the expiry computed from a body without \<^verbatim>\<open>expires_in\<close>, which is
  thrown while the update of the token row is being built. The database is as it was,
  so no ledger row is written, and the only outside call is the exchange itself: the
  mail provider is never called.
\<close>

theorem failed_refresh_aborts_the_scan:
  assumes "sr_user_id rq \<noteq> []"
    and "single (filter (\<lambda>r. user_id r = sr_user_id rq) (gmail_tokens db)) = Some tokenData"
    and "token_expiry tokenData < now w"
    and "exchange_failed (token_endpoint w (refresh_token tokenData))"
  shows "gmail_sync w db rq
         = (Sync_Error (case token_endpoint w (refresh_token tokenData) of
                          Threw e \<Rightarrow> e
                        | Got reply \<Rightarrow> ''Invalid time value''),
            db, [Token_Refresh (refresh_token tokenData)])"
  using assms
  by (auto simp: gmail_sync_def refresh_access_token_def exchange_failed_def
           split: fetched.splits)

theorem failed_refresh_aborts_the_scan_witness:
  "gmail_sync (refresh_world refused_reply) expired_db sample_request
     = (Sync_Error ''Invalid time value'', expired_db, [Token_Refresh ''rt''])
   \<and> gmail_sync ((refresh_world refused_reply)\<lparr>token_endpoint := (\<lambda>_. Threw ''network error'')\<rparr>)
                  expired_db sample_request
     = (Sync_Error ''network error'', expired_db, [Token_Refresh ''rt''])"
proof -
  let ?t = "sample_token\<lparr>token_expiry := noon - 1000\<rparr>"
  let ?w1 = "refresh_world refused_reply"
  let ?w2 = "(refresh_world refused_reply)\<lparr>token_endpoint := (\<lambda>_. Threw ''network error'')\<rparr>"
  have h1: "sr_user_id sample_request \<noteq> []" by (simp add: sample_request_def)
  have h2: "single (filter (\<lambda>r. user_id r = sr_user_id sample_request) (gmail_tokens expired_db))
              = Some ?t"
    by (simp add: expired_db_def single_def sample_token_def sample_request_def)
  have h3: "token_expiry ?t < now ?w1" "token_expiry ?t < now ?w2"
    by (simp_all add: refresh_world_def)
  have e1: "token_endpoint ?w1 (refresh_token ?t) = Got refused_reply"
    and e2: "token_endpoint ?w2 (refresh_token ?t) = Threw ''network error''"
    by (simp_all add: refresh_world_def)
  have h4: "exchange_failed (token_endpoint ?w1 (refresh_token ?t))"
    "exchange_failed (token_endpoint ?w2 (refresh_token ?t))"
    unfolding e1 e2 by (simp_all add: exchange_failed_def refused_reply_def)
  have rt: "refresh_token ?t = ''rt''" by (simp add: sample_token_def)
  from failed_refresh_aborts_the_scan [OF h1 h2 h3(1) h4(1)] e1 rt
  have a: "gmail_sync ?w1 expired_db sample_request
     = (Sync_Error ''Invalid time value'', expired_db, [Token_Refresh ''rt''])"
    by simp
  from failed_refresh_aborts_the_scan [OF h1 h2 h3(2) h4(2)] e2 rt
  have b: "gmail_sync ?w2 expired_db sample_request
     = (Sync_Error ''network error'', expired_db, [Token_Refresh ''rt''])"
    by simp
  from a b show ?thesis by blast
qed

subsection \<open>What a scan changes and what it calls\<close>

lemma searched_append: "searched (xs @ ys) = searched xs @ searched ys"
  by (induction xs rule: searched.induct) auto

lemma classified_append: "classified (xs @ ys) = classified xs @ classified ys"
  by (induction xs rule: classified.induct) (auto split: option.splits)

lemma requested_append: "requested (xs @ ys) = requested xs @ requested ys"
  by (induction xs rule: requested.induct) auto

lemma classify_calls_observed:
  "searched (snd (snd (classify_document w db rq))) = []"
  "classified (snd (snd (classify_document w db rq))) = []"
  "requested (snd (snd (classify_document w db rq))) = []"
  using classify_calls_cases [of w db rq] by auto

text \<open>classify-document changes no key of the ledger.\<close>

lemma ledger_keys_update_processed_emails:
  assumes "\<And>r. pe_user_id (f r) = pe_user_id r" and "\<And>r. gmail_message_id (f r) = gmail_message_id r"
  shows "ledger_keys (update_processed_emails uid mid f db) = ledger_keys db"
  using assms by (simp add: ledger_keys_def update_processed_emails_def)

lemma ledger_keys_update_ledger_of:
  assumes "\<And>r. pe_user_id (f r) = pe_user_id r" and "\<And>r. gmail_message_id (f r) = gmail_message_id r"
  shows "ledger_keys (update_ledger_of rq f db) = ledger_keys db"
  using assms by (simp add: update_ledger_of_def ledger_keys_update_processed_emails split: option.splits)

lemma ledger_keys_materialize:
  "ledger_keys (snd (materialize w db rq c d)) = ledger_keys db"
  by (auto simp: materialize_def insert_invoice_def Let_def ledger_keys_update_ledger_of
           increment_document_count_def ledger_keys_def update_ledger_of_def update_processed_emails_def
           split: option.splits)

lemma ledger_keys_reject:
  "ledger_keys (snd (reject db rq c)) = ledger_keys db"
  by (simp add: reject_def ledger_keys_update_ledger_of)

lemma ledger_keys_classify_document:
  "ledger_keys (fst (snd (classify_document w db rq))) = ledger_keys db"
proof -
  have m: "\<And>c d a b. materialize w db rq c d = (a, b) \<Longrightarrow> ledger_keys b = ledger_keys db"
    using ledger_keys_materialize by (metis snd_conv)
  have r: "\<And>c a b. reject db rq c = (a, b) \<Longrightarrow> ledger_keys b = ledger_keys db"
    using ledger_keys_reject by (metis snd_conv)
  show ?thesis
    by (auto simp: classify_document_def m r split: option.splits openai_reply.splits prod.splits if_splits)
qed

text \<open>What fetching and classifying one attachment changes.\<close>

lemma fetch_and_classify_frame:
  assumes "fetch_and_classify w uid tok mid st a = (err, st')"
  shows "ledger_keys (s_db st') = ledger_keys (s_db st)"
    and "searched (trace st') = searched (trace st)"
    and "set (classified (trace st')) \<subseteq> insert (uid, mid) (set (classified (trace st)))"
    and "requested (trace st') = requested (trace st) @ [attachmentId a]"
proof -
  let ?t = "trace st @ [Gmail_Get_Attachment tok mid (attachmentId a)]"
  show "ledger_keys (s_db st') = ledger_keys (s_db st)"
    using assms ledger_keys_classify_document
    by (auto simp: fetch_and_classify_def Let_def split: fetched.splits prod.splits)
       (metis fst_conv snd_conv)
  show "searched (trace st') = searched (trace st)"
    using assms
    by (auto simp: fetch_and_classify_def Let_def searched_append split: fetched.splits prod.splits)
       (metis classify_calls_observed(1) snd_conv)
  show "set (classified (trace st')) \<subseteq> insert (uid, mid) (set (classified (trace st)))"
    using assms
    by (auto simp: fetch_and_classify_def Let_def classified_append classify_body_def
             split: fetched.splits prod.splits)
       (metis classify_calls_observed(2) snd_conv empty_iff list.set(1))+
  show "requested (trace st') = requested (trace st) @ [attachmentId a]"
    using assms
    by (auto simp: fetch_and_classify_def Let_def requested_append split: fetched.splits prod.splits)
       (metis classify_calls_observed(3) snd_conv)
qed


text \<open>The loop over the attachments of a message.\<close>

lemma process_attachments_frame:
  assumes "process_attachments w uid tok mid st as = (err, st')"
  shows "ledger_keys (s_db st') = ledger_keys (s_db st)
         \<and> searched (trace st') = searched (trace st)
         \<and> set (classified (trace st')) \<subseteq> insert (uid, mid) (set (classified (trace st)))"
  using assms
proof (induction as arbitrary: st)
  case Nil
  then show ?case by auto
next
  case (Cons a as)
  show ?case
  proof (cases "\<not> str_includes (mimeType a) ''pdf'' \<and> \<not> str_includes (mimeType a) ''image''")
    case True
    with Cons show ?thesis by simp
  next
    case False
    obtain e st1 where f: "fetch_and_classify w uid tok mid st a = (e, st1)"
      by (cases "fetch_and_classify w uid tok mid st a")
    note fr = fetch_and_classify_frame [OF f]
    show ?thesis
    proof (cases e)
      case None
      with False f Cons.prems have "process_attachments w uid tok mid st1 as = (err, st')"
        by (auto split: if_splits)
      from Cons.IH [OF this] fr show ?thesis by auto
    next
      case (Some m)
      with False f Cons.prems have "st' = st1" by (auto split: if_splits)
      with fr show ?thesis by auto
    qed
  qed
qed

lemma process_attachments_requested:
  assumes "process_attachments w uid tok mid st as = (None, st')"
  shows "requested (trace st')
         = requested (trace st)
           @ map attachmentId
               (filter (\<lambda>p. str_includes (mimeType p) ''pdf'' \<or> str_includes (mimeType p) ''image'') as)"
  using assms
proof (induction as arbitrary: st)
  case Nil
  then show ?case by simp
next
  case (Cons a as)
  show ?case
  proof (cases "\<not> str_includes (mimeType a) ''pdf'' \<and> \<not> str_includes (mimeType a) ''image''")
    case True
    with Cons show ?thesis by simp
  next
    case False
    obtain e st1 where f: "fetch_and_classify w uid tok mid st a = (e, st1)"
      by (cases "fetch_and_classify w uid tok mid st a")
    show ?thesis
    proof (cases e)
      case None
      with False f Cons.prems have "process_attachments w uid tok mid st1 as = (None, st')"
        by (auto split: if_splits)
      from Cons.IH [OF this] fetch_and_classify_frame(4) [OF f] False show ?thesis by auto
    next
      case (Some m)
      with False f Cons.prems show ?thesis by (auto split: if_splits)
    qed
  qed
qed

lemma process_attachments_filter:
  "process_attachments w uid tok mid st
     (filter (\<lambda>p. str_includes (mimeType p) ''pdf'' \<or> str_includes (mimeType p) ''image'') as)
   = process_attachments w uid tok mid st as"
proof (induction as arbitrary: st)
  case Nil
  then show ?case by simp
next
  case (Cons a as)
  then show ?case by (auto split: prod.splits option.splits)
qed

text \<open>Recording a message, and one message of the loop.\<close>

lemma insert_processed_email_keys:
  "ledger_keys (snd (insert_processed_email r db))
   = (if (pe_user_id r, gmail_message_id r) \<in> set (ledger_keys db) then ledger_keys db
      else ledger_keys db @ [(pe_user_id r, gmail_message_id r)])"
  by (auto simp: insert_processed_email_def ledger_keys_def list_ex_iff same_key_def)

lemma mark_email_frame:
  "ledger_keys (s_db (mark_email uid mid outcome reason s))
   = (if (uid, mid) \<in> set (ledger_keys (s_db s)) then ledger_keys (s_db s)
      else ledger_keys (s_db s) @ [(uid, mid)])"
  "trace (mark_email uid mid outcome reason s) = trace s"
  by (simp_all add: mark_email_def insert_processed_email_keys)

lemma handle_message_frame:
  "ledger_keys (s_db (handle_message w uid tok st mid))
   = (if (uid, mid) \<in> set (ledger_keys (s_db st)) then ledger_keys (s_db st)
      else ledger_keys (s_db st) @ [(uid, mid)])
   \<and> searched (trace (handle_message w uid tok st mid)) = searched (trace st)
   \<and> set (classified (trace (handle_message w uid tok st mid)))
       \<subseteq> insert (uid, mid) (set (classified (trace st)))"
proof (cases "gmail_message w tok mid")
  case (Threw e)
  then show ?thesis
    by (auto simp: handle_message_def Let_def mark_email_frame searched_append classified_append)
next
  case (Got parts)
  let ?st1 = "st\<lparr>trace := trace st @ [Gmail_Get_Message tok mid]\<rparr>"
  obtain err st2 where p: "process_attachments w uid tok mid ?st1 (attachments_of parts) = (err, st2)"
    by (cases "process_attachments w uid tok mid ?st1 (attachments_of parts)")
  from process_attachments_frame [OF p]
  have fr: "ledger_keys (s_db st2) = ledger_keys (s_db st)"
    "searched (trace st2) = searched (trace st)"
    "set (classified (trace st2)) \<subseteq> insert (uid, mid) (set (classified (trace st)))"
    by (simp_all add: searched_append classified_append)
  from Got p fr show ?thesis
    by (cases err) (simp_all add: handle_message_def Let_def mark_email_frame)
qed

lemma single_filter_Some:
  "single (filter P xs) = Some x \<Longrightarrow> x \<in> set xs \<and> P x"
  by (auto simp: single_def split: list.splits dest: filter_eq_ConsD)

lemma distinct_single_filter:
  "distinct (map f xs) \<Longrightarrow> k \<in> f ` set xs \<Longrightarrow> \<exists>x. single (filter (\<lambda>r. f r = k) xs) = Some x"
proof (induction xs)
  case Nil
  then show ?case by simp
next
  case (Cons a xs)
  show ?case
  proof (cases "f a = k")
    case True
    with Cons.prems have "filter (\<lambda>r. f r = k) xs = []"
      by (auto simp: filter_empty_conv image_iff)
    with True show ?thesis by (simp add: single_def)
  next
    case False
    with Cons show ?thesis by auto
  qed
qed

lemma existing_row_found:
  assumes "ledger_unique db" and "(uid, mid) \<in> set (ledger_keys db)"
  shows "\<exists>r. single (filter (\<lambda>r. pe_user_id r = uid \<and> gmail_message_id r = mid) (processed_emails db)) = Some r"
proof -
  have "\<exists>x. single (filter (\<lambda>r. (pe_user_id r, gmail_message_id r) = (uid, mid)) (processed_emails db)) = Some x"
    using assms distinct_single_filter [of "\<lambda>r. (pe_user_id r, gmail_message_id r)" "processed_emails db" "(uid, mid)"]
    by (simp add: ledger_unique_def ledger_keys_def)
  then show ?thesis by simp
qed

lemma found_row_exists:
  assumes "single (filter (\<lambda>r. pe_user_id r = uid \<and> gmail_message_id r = mid) (processed_emails db)) = Some r"
  shows "(uid, mid) \<in> set (ledger_keys db)"
  using single_filter_Some [OF assms] by (force simp: ledger_keys_def)

lemma process_message_frame:
  "ledger_keys (s_db (process_message w uid tok st mid))
   = (if (uid, mid) \<in> set (ledger_keys (s_db st)) then ledger_keys (s_db st)
      else ledger_keys (s_db st) @ [(uid, mid)])
   \<and> searched (trace (process_message w uid tok st mid)) = searched (trace st)
   \<and> set (classified (trace (process_message w uid tok st mid)))
       \<subseteq> insert (uid, mid) (set (classified (trace st)))"
  using handle_message_frame [of w uid tok st mid] found_row_exists [of uid mid "s_db st"]
  by (auto simp: process_message_def split: option.splits)

lemma process_message_skips:
  assumes "ledger_unique (s_db st)" and "(uid, mid) \<in> set (ledger_keys (s_db st))"
  shows "process_message w uid tok st mid = st"
  using existing_row_found [OF assms] by (auto simp: process_message_def)


text \<open>The loop over the messages.\<close>

lemma process_message_unique:
  assumes "ledger_unique (s_db st)"
  shows "ledger_unique (s_db (process_message w uid tok st mid))"
  using assms process_message_frame [of w uid tok st mid]
  by (auto simp: ledger_unique_def)

lemma process_message_classified:
  assumes "ledger_unique (s_db st)"
  shows "set (classified (trace (process_message w uid tok st mid)))
         \<subseteq> set (classified (trace st))
            \<union> {k. k = (uid, mid) \<and> k \<notin> set (ledger_keys (s_db st))}"
proof (cases "(uid, mid) \<in> set (ledger_keys (s_db st))")
  case True
  from process_message_skips [OF assms True] show ?thesis by simp
next
  case False
  with process_message_frame [of w uid tok st mid] show ?thesis by auto
qed

lemma scan_loop_frame:
  assumes "ledger_unique (s_db st)"
  shows "ledger_unique (s_db (foldl (process_message w uid tok) st ms))
         \<and> set (ledger_keys (s_db st)) \<subseteq> set (ledger_keys (s_db (foldl (process_message w uid tok) st ms)))
         \<and> (\<lambda>m. (uid, m)) ` set ms \<subseteq> set (ledger_keys (s_db (foldl (process_message w uid tok) st ms)))
         \<and> searched (trace (foldl (process_message w uid tok) st ms)) = searched (trace st)
         \<and> set (classified (trace (foldl (process_message w uid tok) st ms)))
             \<subseteq> set (classified (trace st))
                \<union> {k. k \<in> (\<lambda>m. (uid, m)) ` set ms \<and> k \<notin> set (ledger_keys (s_db st))}"
  using assms
proof (induction ms arbitrary: st)
  case Nil
  then show ?case by simp
next
  case (Cons m ms)
  let ?s1 = "process_message w uid tok st m"
  let ?s2 = "foldl (process_message w uid tok) ?s1 ms"
  have u1: "ledger_unique (s_db ?s1)"
    using Cons.prems by (rule process_message_unique)
  note ih = Cons.IH [OF u1]
  note fr = process_message_frame [of w uid tok st m]
  note cl = process_message_classified [OF Cons.prems, of w uid tok m]
  have k1: "set (ledger_keys (s_db st)) \<subseteq> set (ledger_keys (s_db ?s1))"
    and k2: "(uid, m) \<in> set (ledger_keys (s_db ?s1))"
    using fr by (auto split: if_splits)
  have a: "ledger_unique (s_db ?s2)" using ih by simp
  have b: "set (ledger_keys (s_db st)) \<subseteq> set (ledger_keys (s_db ?s2))"
    using ih k1 by blast
  have c: "(\<lambda>m. (uid, m)) ` set (m # ms) \<subseteq> set (ledger_keys (s_db ?s2))"
    using ih k2 by auto
  have d: "searched (trace ?s2) = searched (trace st)"
    using ih fr by simp
  have e: "set (classified (trace ?s2))
             \<subseteq> set (classified (trace st))
                \<union> {k. k \<in> (\<lambda>m. (uid, m)) ` set (m # ms) \<and> k \<notin> set (ledger_keys (s_db st))}"
  proof
    fix k assume "k \<in> set (classified (trace ?s2))"
    with ih have "k \<in> set (classified (trace ?s1))
        \<or> (k \<in> (\<lambda>m. (uid, m)) ` set ms \<and> k \<notin> set (ledger_keys (s_db ?s1)))"
      by blast
    then show "k \<in> set (classified (trace st))
                \<union> {k. k \<in> (\<lambda>m. (uid, m)) ` set (m # ms) \<and> k \<notin> set (ledger_keys (s_db st))}"
    proof
      assume "k \<in> set (classified (trace ?s1))"
      with cl show ?thesis by auto
    next
      assume "k \<in> (\<lambda>m. (uid, m)) ` set ms \<and> k \<notin> set (ledger_keys (s_db ?s1))"
      with k1 show ?thesis by auto
    qed
  qed
  from a b c d e show ?case by simp
qed

text \<open>The refresh and the whole handler.\<close>

lemma refresh_access_token_frame:
  assumes "refresh_access_token w db tokenData = (r, db', calls)"
  shows "processed_emails db' = processed_emails db"
    and "invoices db' = invoices db"
    and "profiles db' = profiles db"
    and "classified calls = []"
    and "searched calls = []"
    and "requested calls = []"
  using assms
  by (auto simp: refresh_access_token_def update_gmail_tokens_def
           split: if_splits fetched.splits option.splits)

lemma gmail_sync_frame:
  assumes "ledger_unique db" and "gmail_sync w db rq = (answer, db', calls)"
  shows "ledger_unique db'
         \<and> set (ledger_keys db) \<subseteq> set (ledger_keys db')
         \<and> set (classified calls) \<inter> set (ledger_keys db) = {}
         \<and> set (classified calls) \<subseteq> set (ledger_keys db')"
proof (cases "sr_user_id rq = []")
  case True
  with assms show ?thesis by (auto simp: gmail_sync_def)
next
  case uid: False
  show ?thesis
  proof (cases "single (filter (\<lambda>r. user_id r = sr_user_id rq) (gmail_tokens db))")
    case None
    with uid assms show ?thesis by (auto simp: gmail_sync_def)
  next
    case (Some tokenData)
    obtain r db1 calls1 where rf: "refresh_access_token w db tokenData = (r, db1, calls1)"
      by (cases "refresh_access_token w db tokenData") auto
    note fr = refresh_access_token_frame [OF rf]
    have keys1: "ledger_keys db1 = ledger_keys db"
      using fr(1) by (simp add: ledger_keys_def)
    show ?thesis
    proof (cases r)
      case (Inl e)
      with uid Some rf assms keys1 fr show ?thesis
        by (auto simp: gmail_sync_def ledger_unique_def)
    next
      case (Inr accessToken)
      let ?q = "build_query (now w) (initial_sync rq) tokenData"
      show ?thesis
      proof (cases "gmail_search w accessToken ?q")
        case (Threw e)
        with Inr uid Some rf assms keys1 fr show ?thesis
          by (auto simp: gmail_sync_def ledger_unique_def classified_append)
      next
        case (Got found)
        let ?ms = "take 20 (case found of None \<Rightarrow> [] | Some ms \<Rightarrow> ms)"
        let ?start = "\<lparr>s_db = db1, processedCount = 0, invoiceCount = 0,
                     trace = calls1 @ [Gmail_Search accessToken ?q]\<rparr>"
        let ?final = "foldl (process_message w (sr_user_id rq) accessToken) ?start ?ms"
        have u0: "ledger_unique (s_db ?start)"
          using assms(1) keys1 by (simp add: ledger_unique_def)
        note lp = scan_loop_frame [OF u0, of w "sr_user_id rq" accessToken ?ms]
        have c0: "classified (trace ?start) = []"
          using fr(4) by (simp add: classified_append)
        have res: "db' = s_db ?final" "calls = trace ?final"
          using Got Inr uid Some rf assms(2)
          by (auto simp: gmail_sync_def Let_def update_gmail_last_sync_def)
        have keys': "ledger_keys db' = ledger_keys (s_db ?final)"
          using res(1) by simp
        from lp have l1: "ledger_unique (s_db ?final)"
          and l2: "set (ledger_keys (s_db ?start)) \<subseteq> set (ledger_keys (s_db ?final))"
          and l3: "(\<lambda>m. (sr_user_id rq, m)) ` set ?ms \<subseteq> set (ledger_keys (s_db ?final))"
          and l5: "set (classified (trace ?final))
                     \<subseteq> set (classified (trace ?start))
                        \<union> {k. k \<in> (\<lambda>m. (sr_user_id rq, m)) ` set ?ms
                                \<and> k \<notin> set (ledger_keys (s_db ?start))}"
          by blast+
        have g1: "ledger_unique db'"
          using l1 keys' by (simp add: ledger_unique_def)
        have g2: "set (ledger_keys db) \<subseteq> set (ledger_keys db')"
          using l2 keys' keys1 by simp
        have g3: "set (classified calls) \<inter> set (ledger_keys db) = {}"
          using l5 c0 keys1 res(2) by auto
        have g4: "set (classified calls) \<subseteq> set (ledger_keys db')"
          using l5 l3 c0 keys' res(2) by auto
        from g1 g2 g3 g4 show ?thesis by simp
      qed
    qed
  qed
qed

subsection \<open>The rows a scan writes\<close>

text \<open>
  While a message is being classified it has no ledger row yet, so the updates that
  classify-document makes to \<^verbatim>\<open>processed_emails\<close> reach nothing. From a ledger that
  satisfies the uniqueness constraint, a scan leaves the rows it found as they were and
  appends rows without an invoice id, with status \<^verbatim>\<open>processed\<close> or \<^verbatim>\<open>error\<close>.
\<close>

lemma update_ledger_of_absent:
  assumes "rq_gmail_message_id rq = Some mid" and "(rq_user_id rq, mid) \<notin> set (ledger_keys db)"
  shows "update_ledger_of rq f db = db"
proof -
  have "map (\<lambda>r. if pe_user_id r = rq_user_id rq \<and> gmail_message_id r = mid then f r else r)
            (processed_emails db) = processed_emails db"
    using assms(2) by (intro map_idI) (force simp: ledger_keys_def)
  with assms(1) show ?thesis
    by (simp add: update_ledger_of_def update_processed_emails_def)
qed

lemma classify_document_absent:
  assumes "rq_gmail_message_id rq = Some mid" and "(rq_user_id rq, mid) \<notin> set (ledger_keys db)"
  shows "processed_emails (fst (snd (classify_document w db rq))) = processed_emails db"
proof -
  have k: "\<And>db1. ledger_keys db1 = ledger_keys db \<Longrightarrow> update_ledger_of rq f db1 = db1" for f
    using assms update_ledger_of_absent by metis
  have m: "processed_emails (snd (materialize w db rq c d)) = processed_emails db" for c d
    by (cases "invoice_refusal w")
       (simp_all add: materialize_def insert_invoice_def Let_def k ledger_keys_def
                      increment_document_count_def)
  have r: "processed_emails (snd (reject db rq c)) = processed_emails db" for c
    by (simp add: reject_def k)
  show ?thesis
    using m r
    by (auto simp: classify_document_def split: option.splits openai_reply.splits prod.splits)
       (metis snd_conv)+
qed

lemma fetch_and_classify_absent:
  assumes "fetch_and_classify w uid tok mid st a = (err, st')"
    and "(uid, mid) \<notin> set (ledger_keys (s_db st))"
  shows "processed_emails (s_db st') = processed_emails (s_db st)"
proof (cases "gmail_attachment w tok mid (attachmentId a)")
  case (Threw e)
  with assms(1) show ?thesis by (auto simp: fetch_and_classify_def Let_def)
next
  case (Got d)
  let ?rq = "classify_body uid mid a d"
  have "processed_emails (fst (snd (classify_document (classifier w ?rq) (s_db st) ?rq)))
        = processed_emails (s_db st)"
    using assms(2) by (intro classify_document_absent [of _ mid]) (simp_all add: classify_body_def)
  with Got assms(1) show ?thesis
    by (auto simp: fetch_and_classify_def Let_def split: prod.splits)
qed

lemma process_attachments_absent:
  assumes "process_attachments w uid tok mid st as = (err, st')"
    and "(uid, mid) \<notin> set (ledger_keys (s_db st))"
  shows "processed_emails (s_db st') = processed_emails (s_db st)"
  using assms
proof (induction as arbitrary: st)
  case Nil
  then show ?case by simp
next
  case (Cons a as)
  show ?case
  proof (cases "\<not> str_includes (mimeType a) ''pdf'' \<and> \<not> str_includes (mimeType a) ''image''")
    case True
    with Cons show ?thesis by simp
  next
    case False
    obtain e st1 where f: "fetch_and_classify w uid tok mid st a = (e, st1)"
      by (cases "fetch_and_classify w uid tok mid st a")
    note same = fetch_and_classify_absent [OF f Cons.prems(2)]
    then have k1: "(uid, mid) \<notin> set (ledger_keys (s_db st1))"
      using Cons.prems(2) by (simp add: ledger_keys_def)
    show ?thesis
    proof (cases e)
      case None
      with False f Cons.prems have "process_attachments w uid tok mid st1 as = (err, st')"
        by (auto split: if_splits)
      from Cons.IH [OF this k1] same show ?thesis by simp
    next
      case (Some m)
      with False f Cons.prems have "st' = st1" by (auto split: if_splits)
      with same show ?thesis by simp
    qed
  qed
qed

lemma mark_email_absent:
  assumes "(uid, mid) \<notin> set (ledger_keys (s_db s))"
  shows "processed_emails (s_db (mark_email uid mid outcome reason s))
         = processed_emails (s_db s)
           @ [\<lparr>pe_user_id = uid, email_id = mid, gmail_message_id = mid, invoice_id = None,
               status = outcome, rejection_reason = reason\<rparr>]"
  using assms
  by (auto simp: mark_email_def insert_processed_email_def list_ex_iff same_key_def ledger_keys_def)

lemma handle_message_absent:
  assumes "(uid, mid) \<notin> set (ledger_keys (s_db st))"
  shows "\<exists>r. processed_emails (s_db (handle_message w uid tok st mid))
              = processed_emails (s_db st) @ [r]
            \<and> written_by_sync uid r"
proof (cases "gmail_message w tok mid")
  case (Threw e)
  with assms show ?thesis
    by (simp add: handle_message_def Let_def mark_email_absent written_by_sync_def)
next
  case (Got parts)
  let ?st1 = "st\<lparr>trace := trace st @ [Gmail_Get_Message tok mid]\<rparr>"
  obtain err st2 where p: "process_attachments w uid tok mid ?st1 (attachments_of parts) = (err, st2)"
    by (cases "process_attachments w uid tok mid ?st1 (attachments_of parts)")
  have a1: "(uid, mid) \<notin> set (ledger_keys (s_db ?st1))" using assms by simp
  note same = process_attachments_absent [OF p a1]
  then have a2: "(uid, mid) \<notin> set (ledger_keys (s_db st2))"
    using assms by (simp add: ledger_keys_def)
  from Got p same a2 show ?thesis
    by (cases err) (simp_all add: handle_message_def Let_def mark_email_absent written_by_sync_def)
qed

lemma process_message_rows:
  assumes "ledger_unique (s_db st)"
  shows "\<exists>new. processed_emails (s_db (process_message w uid tok st mid))
                = processed_emails (s_db st) @ new
              \<and> list_all (written_by_sync uid) new"
proof (cases "(uid, mid) \<in> set (ledger_keys (s_db st))")
  case True
  from process_message_skips [OF assms True] show ?thesis by simp
next
  case False
  then have "single (filter (\<lambda>r. pe_user_id r = uid \<and> gmail_message_id r = mid)
                            (processed_emails (s_db st))) = None"
    using found_row_exists [of uid mid "s_db st"] by (cases "single (filter (\<lambda>r. pe_user_id r = uid \<and> gmail_message_id r = mid)
                            (processed_emails (s_db st)))") auto
  then have "process_message w uid tok st mid = handle_message w uid tok st mid"
    by (simp add: process_message_def)
  moreover from handle_message_absent [OF False, of w tok]
  obtain r where "processed_emails (s_db (handle_message w uid tok st mid))
      = processed_emails (s_db st) @ [r]" "written_by_sync uid r" by blast
  ultimately have "processed_emails (s_db (process_message w uid tok st mid))
      = processed_emails (s_db st) @ [r] \<and> list_all (written_by_sync uid) [r]"
    by simp
  then show ?thesis by blast
qed

lemma scan_loop_rows:
  assumes "ledger_unique (s_db st)"
  shows "\<exists>new. processed_emails (s_db (foldl (process_message w uid tok) st ms))
                = processed_emails (s_db st) @ new
              \<and> list_all (written_by_sync uid) new"
  using assms
proof (induction ms arbitrary: st)
  case Nil
  then show ?case by simp
next
  case (Cons m ms)
  let ?s1 = "process_message w uid tok st m"
  from process_message_rows [OF Cons.prems, of w uid tok m]
  obtain n1 where n1: "processed_emails (s_db ?s1) = processed_emails (s_db st) @ n1"
    "list_all (written_by_sync uid) n1" by blast
  have "ledger_unique (s_db ?s1)" using Cons.prems by (rule process_message_unique)
  from Cons.IH [OF this]
  obtain n2 where n2: "processed_emails (s_db (foldl (process_message w uid tok) ?s1 ms))
      = processed_emails (s_db ?s1) @ n2" "list_all (written_by_sync uid) n2" by blast
  from n1 n2 have "processed_emails (s_db (foldl (process_message w uid tok) st (m # ms)))
      = processed_emails (s_db st) @ (n1 @ n2) \<and> list_all (written_by_sync uid) (n1 @ n2)"
    by simp
  then show ?case by blast
qed

lemma gmail_sync_rows:
  assumes "ledger_unique db" and "gmail_sync w db rq = (answer, db', calls)"
  shows "\<exists>new. processed_emails db' = processed_emails db @ new
              \<and> list_all (written_by_sync (sr_user_id rq)) new"
proof (cases "sr_user_id rq = []")
  case True
  with assms show ?thesis by (auto simp: gmail_sync_def)
next
  case uid: False
  show ?thesis
  proof (cases "single (filter (\<lambda>r. user_id r = sr_user_id rq) (gmail_tokens db))")
    case None
    with uid assms show ?thesis by (auto simp: gmail_sync_def)
  next
    case (Some tokenData)
    obtain r db1 calls1 where rf: "refresh_access_token w db tokenData = (r, db1, calls1)"
      by (cases "refresh_access_token w db tokenData") auto
    note fr = refresh_access_token_frame [OF rf]
    show ?thesis
    proof (cases r)
      case (Inl e)
      with uid Some rf assms fr show ?thesis by (auto simp: gmail_sync_def)
    next
      case (Inr accessToken)
      let ?q = "build_query (now w) (initial_sync rq) tokenData"
      show ?thesis
      proof (cases "gmail_search w accessToken ?q")
        case (Threw e)
        with Inr uid Some rf assms fr show ?thesis by (auto simp: gmail_sync_def)
      next
        case (Got found)
        let ?ms = "take 20 (case found of None \<Rightarrow> [] | Some ms \<Rightarrow> ms)"
        let ?start = "\<lparr>s_db = db1, processedCount = 0, invoiceCount = 0,
                     trace = calls1 @ [Gmail_Search accessToken ?q]\<rparr>"
        let ?final = "foldl (process_message w (sr_user_id rq) accessToken) ?start ?ms"
        have u0: "ledger_unique (s_db ?start)"
          using assms(1) fr(1) by (simp add: ledger_unique_def ledger_keys_def)
        have "db' = s_db ?final"
          using Got Inr uid Some rf assms(2)
          by (auto simp: gmail_sync_def Let_def update_gmail_last_sync_def)
        then have "processed_emails db' = processed_emails (s_db ?final)"
          by simp
        with scan_loop_rows [OF u0, of w "sr_user_id rq" accessToken ?ms] fr(1)
        show ?thesis by simp
      qed
    qed
  qed
qed

subsection \<open>The token refresh\<close>

text \<open>
  C9: a successful refresh (the stored token has expired and the token endpoint
  returns an access token and a lifetime) changes, in the row of the user, the access
  token and the expiry and nothing else: the refresh token, the user id and the mail
  address stay as they were, as do the rows of other users and the other tables, the
  last sync on \<^verbatim>\<open>profiles\<close> among them. The handler uses the new access token.
\<close>

theorem refresh_changes_only_token_and_expiry:
  assumes "token_expiry tokenData < now w"
    and "token_endpoint w (refresh_token tokenData) = Got newTokens"
    and "rr_access_token newTokens = Some a"
    and "rr_expires_in newTokens = Some n"
    and "valid_time (now w + n * 1000)"
    and "refresh_access_token w db tokenData = (r, db', calls)"
  shows "r = Inr (Some a)
         \<and> gmail_tokens db'
             = map (\<lambda>row. if user_id row = user_id tokenData
                          then row\<lparr>access_token := a, token_expiry := now w + n * 1000\<rparr>
                          else row)
                   (gmail_tokens db)
         \<and> map refresh_token (gmail_tokens db') = map refresh_token (gmail_tokens db)
         \<and> map user_id (gmail_tokens db') = map user_id (gmail_tokens db)
         \<and> map gmail_email (gmail_tokens db') = map gmail_email (gmail_tokens db)
         \<and> map gmail_last_sync (profiles db') = map gmail_last_sync (profiles db)
         \<and> processed_emails db' = processed_emails db
         \<and> invoices db' = invoices db
         \<and> profiles db' = profiles db"
  using assms
  by (auto simp: refresh_access_token_def update_gmail_tokens_def)

theorem refresh_changes_only_token_and_expiry_witness:
  "fst (refresh_access_token (refresh_world granted_reply) expired_db
          (sample_token\<lparr>token_expiry := noon - 1000\<rparr>)) = Inr (Some ''at2'')
   \<and> gmail_tokens (fst (snd (refresh_access_token (refresh_world granted_reply) expired_db
          (sample_token\<lparr>token_expiry := noon - 1000\<rparr>))))
       = [\<lparr>user_id = ''u1'', access_token = ''at2'', refresh_token = ''rt'',
           token_expiry = noon + 3600000, gmail_email = ''u1@example.com''\<rparr>]"
proof -
  let ?w = "refresh_world granted_reply"
  let ?t = "sample_token\<lparr>token_expiry := noon - 1000\<rparr>"
  let ?x = "refresh_access_token ?w expired_db ?t"
  have h1: "token_expiry ?t < now ?w" by (simp add: refresh_world_def)
  have h2: "token_endpoint ?w (refresh_token ?t) = Got granted_reply" by (simp add: refresh_world_def)
  have h3: "rr_access_token granted_reply = Some ''at2''" by (simp add: granted_reply_def)
  have h4: "rr_expires_in granted_reply = Some 3600" by (simp add: granted_reply_def)
  have h5: "valid_time (now ?w + 3600 * 1000)" by (simp add: refresh_world_def valid_time_def noon_def)
  have h6: "?x = (fst ?x, fst (snd ?x), snd (snd ?x))" by simp
  note t = refresh_changes_only_token_and_expiry [OF h1 h2 h3 h4 h5 h6]
  have "gmail_tokens expired_db = [?t]" by (simp add: expired_db_def)
  with t show ?thesis
    by (simp add: sample_token_def refresh_world_def)
qed

text \<open>
  Any reply without a numeric \<^verbatim>\<open>expires_in\<close>, refusal or not, stops the scan in the
  same way, as does a request that throws.
\<close>

lemma refresh_without_expiry_stops_the_scan:
  assumes "sr_user_id rq \<noteq> []"
    and "single (filter (\<lambda>r. user_id r = sr_user_id rq) (gmail_tokens db)) = Some tokenData"
    and "token_expiry tokenData < now w"
    and "token_endpoint w (refresh_token tokenData) = Threw e
         \<or> (\<exists>reply. token_endpoint w (refresh_token tokenData) = Got reply
                     \<and> rr_expires_in reply = None)"
  shows "\<exists>msg. gmail_sync w db rq = (Sync_Error msg, db, [Token_Refresh (refresh_token tokenData)])"
  using assms by (auto simp: gmail_sync_def refresh_access_token_def)

subsection \<open>The lower date bound of the search\<close>

lemma scan_loop_searched:
  "searched (trace (foldl (process_message w uid tok) st ms)) = searched (trace st)"
  by (induction ms arbitrary: st) (simp_all add: process_message_frame)

lemma gmail_sync_searched:
  assumes "sr_user_id rq \<noteq> []"
    and "single (filter (\<lambda>r. user_id r = sr_user_id rq) (gmail_tokens db)) = Some tokenData"
    and "gmail_sync w db rq = (answer, db', calls)"
  shows "searched calls
         = (case fst (refresh_access_token w db tokenData) of
              Inl e \<Rightarrow> []
            | Inr accessToken \<Rightarrow> [build_query (now w) (initial_sync rq) tokenData])"
proof -
  obtain r db1 calls1 where rf: "refresh_access_token w db tokenData = (r, db1, calls1)"
    by (cases "refresh_access_token w db tokenData") auto
  note fr = refresh_access_token_frame [OF rf]
  show ?thesis
  proof (cases r)
    case (Inl e)
    with assms rf fr show ?thesis by (auto simp: gmail_sync_def)
  next
    case (Inr accessToken)
    let ?q = "build_query (now w) (initial_sync rq) tokenData"
    show ?thesis
    proof (cases "gmail_search w accessToken ?q")
      case (Threw e)
      with Inr assms rf fr show ?thesis by (auto simp: gmail_sync_def searched_append)
    next
      case (Got found)
      let ?ms = "take 20 (case found of None \<Rightarrow> [] | Some ms \<Rightarrow> ms)"
      let ?start = "\<lparr>s_db = db1, processedCount = 0, invoiceCount = 0,
                     trace = calls1 @ [Gmail_Search accessToken ?q]\<rparr>"
      have "calls = trace (foldl (process_message w (sr_user_id rq) accessToken) ?start ?ms)"
        using Got Inr assms rf by (auto simp: gmail_sync_def Let_def)
      moreover have "searched (trace (foldl (process_message w (sr_user_id rq) accessToken) ?start ?ms))
          = searched (trace ?start)"
        by (rule scan_loop_searched)
      ultimately show ?thesis using Inr rf fr by (simp add: searched_append)
    qed
  qed
qed

text \<open>
  Whatever the database holds, an incremental scan that gets past the refresh sends
  one search, for mail after the UTC date of seven days before now.
\<close>

lemma incremental_search_starts_a_week_back:
  assumes "sr_user_id rq \<noteq> []" and "\<not> initial_sync rq"
    and "single (filter (\<lambda>r. user_id r = sr_user_id rq) (gmail_tokens db)) = Some tokenData"
    and "gmail_sync w db rq = (answer, db', calls)"
  shows "searched calls
         = (case fst (refresh_access_token w db tokenData) of
              Inl e \<Rightarrow> []
            | Inr accessToken \<Rightarrow>
                [base_query @ '' after:'' @ slashes (iso_date (now w - 7 * ms_per_day))])"
  using gmail_sync_searched [OF assms(1) assms(3) assms(4)] assms(2)
  by (auto simp: build_query_def tokenData_gmail_last_sync_def ms_per_day_def Let_def
           split: sum.splits)

text \<open>
  C5: the lower date bound of an incremental scan should be the later of the last
  sync and seven days ago. On the code the last sync is neither stored nor read: the
  handler writes it to, and reads it from, \<^verbatim>\<open>gmail_tokens\<close>, which has no such column.
  A scan of the sample mailbox three days before noon of 2026-11-02 leaves the token
  row and the profile's last sync as they were; the scan at noon then asks for mail
  after 2026/10/26, and so it does when the profile row itself carries a last sync of
  three days ago, where the later of the two instants gives 2026/10/30.
\<close>

theorem last_sync_is_neither_stored_nor_read:
  "(case gmail_sync (sample_world_at (noon - 3 * ms_per_day)) (sample_db [profile_of 0 5])
                    sample_request of
      (answer1, db1, calls1) \<Rightarrow>
        answer1 = Sync_Ok 1 0 1
        \<and> gmail_tokens db1 = [sample_token]
        \<and> map gmail_last_sync (profiles db1) = [None]
        \<and> (case gmail_sync (sample_world_at noon) db1 sample_request of
             (answer2, db2, calls2) \<Rightarrow>
               searched calls2 = [base_query @ '' after:2026/10/26'']))
   \<and> searched (snd (snd (gmail_sync (sample_world_at noon)
                           (sample_db [(profile_of 0 5)\<lparr>gmail_last_sync := Some (noon - 3 * ms_per_day)\<rparr>])
                           sample_request)))
       = [base_query @ '' after:2026/10/26'']
   \<and> base_query @ '' after:'' @ slashes (iso_date (spec_lower_bound noon (noon - 3 * ms_per_day)))
       = base_query @ '' after:2026/10/30''"
  by code_simp

subsection \<open>Which parts of a message are fetched\<close>

lemma prefix_str_includes: "prefix sub s \<Longrightarrow> str_includes s sub"
  by (cases s) auto

lemma spec_retained_passes: "spec_retained p \<Longrightarrow> passes_filters p"
proof -
  assume a: "spec_retained p"
  have pdf: "str_includes ''application/pdf'' ''pdf''" by code_simp
  have "prefix ''image/'' (mimeType p) \<Longrightarrow> prefix ''image'' (mimeType p)"
    by (auto simp: prefix_def)
  with a pdf show ?thesis
    by (auto simp: spec_retained_def passes_filters_def dest: prefix_str_includes)
qed

lemma filter_passes_filters:
  "filter passes_filters (case parts of None \<Rightarrow> [] | Some ps \<Rightarrow> ps)
   = filter (\<lambda>p. str_includes (mimeType p) ''pdf'' \<or> str_includes (mimeType p) ''image'')
       (attachments_of parts)"
  by (cases parts) (auto simp: attachments_of_def passes_filters_def intro: filter_cong)

text \<open>
  C7, as the code has it: the parts whose data is fetched are exactly those that
  carry a non-empty file name and a non-empty attachment id and whose MIME type
  contains \<^verbatim>\<open>pdf\<close> or \<^verbatim>\<open>image\<close> as a substring, in order (when no fetch throws); the
  other parts leave no mark, since the loop over all attachments behaves as the loop
  over the passing ones. Every part that is \<^verbatim>\<open>application/pdf\<close> or \<^verbatim>\<open>image/*\<close> with a
  file name and an id passes; of a PDF part and a plain-text part only the PDF does.
\<close>

theorem extraction_keeps_parts_passing_both_tests:
  "(process_attachments w uid tok mid st (attachments_of parts) = (None, st')
      \<longrightarrow> requested (trace st')
          = requested (trace st)
            @ map attachmentId (filter passes_filters (case parts of None \<Rightarrow> [] | Some ps \<Rightarrow> ps)))
   \<and> process_attachments w uid tok mid st (attachments_of parts)
       = process_attachments w uid tok mid st
           (filter passes_filters (case parts of None \<Rightarrow> [] | Some ps \<Rightarrow> ps))
   \<and> (spec_retained p \<longrightarrow> passes_filters p)
   \<and> filter passes_filters [pdf_part, text_part] = [pdf_part]"
proof -
  have a: "process_attachments w uid tok mid st (attachments_of parts) = (None, st')
      \<longrightarrow> requested (trace st')
          = requested (trace st)
            @ map attachmentId (filter passes_filters (case parts of None \<Rightarrow> [] | Some ps \<Rightarrow> ps))"
    using process_attachments_requested [of w uid tok mid st "attachments_of parts" st']
    by (simp add: filter_passes_filters)
  have b: "process_attachments w uid tok mid st (attachments_of parts)
       = process_attachments w uid tok mid st
           (filter passes_filters (case parts of None \<Rightarrow> [] | Some ps \<Rightarrow> ps))"
    by (simp add: filter_passes_filters process_attachments_filter)
  have c: "spec_retained p \<longrightarrow> passes_filters p"
    using spec_retained_passes by blast
  have d: "filter passes_filters [pdf_part, text_part] = [pdf_part]"
    by code_simp
  from a b c d show ?thesis by blast
qed


theorem extraction_keeps_parts_passing_both_tests_witness:
  "requested (trace (snd (process_attachments (sample_world [pdf_part, text_part] (OpenAI_Content None))
                            ''u1'' (Some ''at'') ''m1'' sample_state
                            (attachments_of (Some [pdf_part, text_part])))))
     = [Some ''a1'']
   \<and> passes_filters pdf_part"
proof -
  let ?w = "sample_world [pdf_part, text_part] (OpenAI_Content None)"
  let ?x = "process_attachments ?w ''u1'' (Some ''at'') ''m1'' sample_state
              (attachments_of (Some [pdf_part, text_part]))"
  note t = extraction_keeps_parts_passing_both_tests
             [of ?w "''u1''" "Some ''at''" "''m1''" sample_state "Some [pdf_part, text_part]"
                 "snd ?x" pdf_part]
  have "fst ?x = None" by code_simp
  then have run: "?x = (None, snd ?x)" by (metis prod.collapse)
  have start: "requested (trace sample_state) = []" by (simp add: sample_state_def)
  have spec: "spec_retained pdf_part" by code_simp
  from t run have r: "requested (trace (snd ?x))
      = requested (trace sample_state)
        @ map attachmentId (filter passes_filters
            (case Some [pdf_part, text_part] of None \<Rightarrow> [] | Some ps \<Rightarrow> ps))"
    by blast
  from t have f: "filter passes_filters [pdf_part, text_part] = [pdf_part]" by blast
  from t spec have p: "passes_filters pdf_part" by blast
  have "requested (trace (snd ?x)) = map attachmentId [pdf_part]"
    using r f start by simp
  also have "map attachmentId [pdf_part] = [Some ''a1'']" by (simp add: pdf_part_def)
  finally show ?thesis using p by simp
qed

text \<open>
  C7 as stated fails: a part of type \<^verbatim>\<open>application/vnd.oasis.opendocument.image\<close> is
  neither \<^verbatim>\<open>application/pdf\<close> nor \<^verbatim>\<open>image/*\<close>, and its data is fetched.
\<close>

theorem odf_image_part_is_fetched:
  "requested (snd (snd (gmail_sync (sample_world [odf_image_part, text_part] (OpenAI_Content None))
                                   (sample_db [profile_of 0 5]) sample_request)))
     = [Some ''a3'']
   \<and> filter spec_retained [odf_image_part, text_part] = []"
  by code_simp

subsection \<open>Materializing an invoice\<close>

lemma js_or_truthy: "js_or s dflt = (if truthy s then the s else dflt)"
  by (cases s) (auto simp: js_or_def truthy_def)

lemma invoices_update_ledger_of: "invoices (update_ledger_of rq f db) = invoices db"
  by (simp add: update_ledger_of_def update_processed_emails_def split: option.splits)

lemma materialize_accepted:
  assumes "invoice_refusal w = None"
  shows "fst (materialize w db rq c d) = Classify_Ok c (Some (length (invoices db)))
         \<and> invoices (snd (materialize w db rq c d))
             = invoices db @ [(invoiceData (cw_now w) (rq_user_id rq) c d)\<lparr>inv_id := length (invoices db)\<rparr>]"
  using assms
  by (simp add: materialize_def insert_invoice_def Let_def increment_document_count_def
                invoices_update_ledger_of)

lemma reject_frame:
  "fst (reject db rq c) = Classify_Ok c None
   \<and> invoices (snd (reject db rq c)) = invoices db
   \<and> profiles (snd (reject db rq c)) = profiles db"
  by (simp add: reject_def update_ledger_of_def update_processed_emails_def split: option.splits)

text \<open>
  C8, as the code has it, for a request that is complete, a user under the limit and a
  reply of the model that parses to a verdict. When the verdict is an invoice and
  carries a data object and the insert is accepted, one invoice row is added, built
  from the verdict, and each of supplier name, document number, document date,
  business type and category is the extracted value when that is present and not
  empty, and otherwise its default: the fixed unknown-supplier label, \<^verbatim>\<open>AUTO-\<close>
  followed by the clock reading, the current UTC date, and the default business-type
  and category labels. When the insert is refused the answer is that error and the
  database is as it was. When the verdict is not an invoice, or is one without a data
  object, it is handled as a rejection: the answer carries no invoice id, and neither
  an invoice is made nor the document count raised.
\<close>

theorem verdict_with_data_is_materialized_with_defaults:
  assumes "rq_user_id rq \<noteq> []" and "file_data rq = Some data" and "data \<noteq> []"
    and "\<not> limit_reached db (rq_user_id rq)"
    and "openai w = OpenAI_Content (Some c)"
    and "classify_document w db rq = (answer, db', calls)"
  shows "(is_invoice c \<and> c_data c = Some d \<and> invoice_refusal w = None
            \<longrightarrow> answer = Classify_Ok c (Some (length (invoices db)))
              \<and> invoices db'
                  = invoices db
                    @ [(invoiceData (cw_now w) (rq_user_id rq) c d)\<lparr>inv_id := length (invoices db)\<rparr>]
              \<and> supplier_name (last (invoices db'))
                  = (if truthy (d_supplier_name d) then the (d_supplier_name d)
                     else unknown_supplier)
              \<and> document_number (last (invoices db'))
                  = (if truthy (d_document_number d) then the (d_document_number d)
                     else ''AUTO-'' @ show_int (cw_now w))
              \<and> document_date (last (invoices db'))
                  = (if truthy (d_document_date d) then the (d_document_date d)
                     else iso_date (cw_now w))
              \<and> business_type (last (invoices db'))
                  = (if truthy (d_business_type d) then the (d_business_type d)
                     else default_business_type)
              \<and> category (last (invoices db'))
                  = (if truthy (d_category d) then the (d_category d) else default_category))
         \<and> (is_invoice c \<and> c_data c = Some d \<and> invoice_refusal w = Some e
              \<longrightarrow> answer = Classify_Error e \<and> db' = db)
         \<and> (\<not> is_invoice c \<or> c_data c = None
              \<longrightarrow> (answer, db') = reject db rq c
                \<and> answer = Classify_Ok c None
                \<and> invoices db' = invoices db
                \<and> profiles db' = profiles db)"
proof -
  have accepted: "answer = Classify_Ok c (Some (length (invoices db)))
      \<and> invoices db'
          = invoices db
            @ [(invoiceData (cw_now w) (rq_user_id rq) c d)\<lparr>inv_id := length (invoices db)\<rparr>]
      \<and> supplier_name (last (invoices db'))
          = (if truthy (d_supplier_name d) then the (d_supplier_name d) else unknown_supplier)
      \<and> document_number (last (invoices db'))
          = (if truthy (d_document_number d) then the (d_document_number d)
             else ''AUTO-'' @ show_int (cw_now w))
      \<and> document_date (last (invoices db'))
          = (if truthy (d_document_date d) then the (d_document_date d) else iso_date (cw_now w))
      \<and> business_type (last (invoices db'))
          = (if truthy (d_business_type d) then the (d_business_type d)
             else default_business_type)
      \<and> category (last (invoices db'))
          = (if truthy (d_category d) then the (d_category d) else default_category)"
    if v: "is_invoice c" "c_data c = Some d" "invoice_refusal w = None"
  proof -
    let ?row = "(invoiceData (cw_now w) (rq_user_id rq) c d)\<lparr>inv_id := length (invoices db)\<rparr>"
    have run: "classify_document w db rq
               = (fst (materialize w db rq c d), snd (materialize w db rq c d),
                  [OpenAI_Call (file_type rq) data])"
      using assms(1-5) v(1,2) by (simp add: classify_document_def split: prod.splits)
    note m = materialize_accepted [OF v(3), of db rq c d]
    from run assms(6) m have ans: "answer = Classify_Ok c (Some (length (invoices db)))"
      and rows: "invoices db' = invoices db @ [?row]"
      by simp_all
    have l: "last (invoices db') = ?row" using rows by simp
    show ?thesis
      unfolding l using ans rows by (simp add: invoiceData_def js_or_truthy)
  qed
  have refused: "answer = Classify_Error e \<and> db' = db"
    if v: "is_invoice c" "c_data c = Some d" "invoice_refusal w = Some e"
    using assms v
    by (simp add: classify_document_def materialize_def insert_invoice_def split: prod.splits)
  have rejected: "(answer, db') = reject db rq c \<and> answer = Classify_Ok c None
      \<and> invoices db' = invoices db \<and> profiles db' = profiles db"
    if v: "\<not> is_invoice c \<or> c_data c = None"
  proof -
    have "(if is_invoice c then c_data c else None) = None" using v by auto
    with assms have run: "(answer, db') = reject db rq c"
      by (auto simp: classify_document_def split: prod.splits)
    with reject_frame [of db rq c] show ?thesis
      by (metis fst_conv snd_conv)
  qed
  from accepted refused rejected show ?thesis by blast
qed

theorem verdict_with_data_is_materialized_with_defaults_witness:
  "map supplier_name (invoices (fst (snd (classify_document
       (sample_classifier (OpenAI_Content (Some invoice_verdict))) (sample_db [profile_of 0 5])
       sample_classify_request)))) = [''ACME'']
   \<and> map document_number (invoices (fst (snd (classify_document
       (sample_classifier (OpenAI_Content (Some invoice_verdict))) (sample_db [profile_of 0 5])
       sample_classify_request)))) = [''AUTO-1793620805000'']
   \<and> map document_date (invoices (fst (snd (classify_document
       (sample_classifier (OpenAI_Content (Some invoice_verdict))) (sample_db [profile_of 0 5])
       sample_classify_request)))) = [''2026-11-02'']
   \<and> map category (invoices (fst (snd (classify_document
       (sample_classifier (OpenAI_Content (Some invoice_verdict))) (sample_db [profile_of 0 5])
       sample_classify_request)))) = [default_category]
   \<and> fst (classify_document
       (sample_classifier (OpenAI_Content (Some bare_verdict))) (sample_db [profile_of 0 5])
       sample_classify_request) = Classify_Ok bare_verdict None
   \<and> invoices (fst (snd (classify_document
       (sample_classifier (OpenAI_Content (Some bare_verdict))) (sample_db [profile_of 0 5])
       sample_classify_request))) = []
   \<and> classify_document
       ((sample_classifier (OpenAI_Content (Some invoice_verdict)))\<lparr>invoice_refusal := Some ''refused''\<rparr>)
       (sample_db [profile_of 0 5]) sample_classify_request
       = (Classify_Error ''refused'', sample_db [profile_of 0 5],
          snd (snd (classify_document
            ((sample_classifier (OpenAI_Content (Some invoice_verdict)))\<lparr>invoice_refusal := Some ''refused''\<rparr>)
            (sample_db [profile_of 0 5]) sample_classify_request)))"
proof -
  let ?w = "sample_classifier (OpenAI_Content (Some invoice_verdict))"
  let ?wb = "sample_classifier (OpenAI_Content (Some bare_verdict))"
  let ?wr = "(sample_classifier (OpenAI_Content (Some invoice_verdict)))\<lparr>invoice_refusal := Some ''refused''\<rparr>"
  let ?db = "sample_db [profile_of 0 5]"
  let ?x = "classify_document ?w ?db sample_classify_request"
  let ?y = "classify_document ?wb ?db sample_classify_request"
  let ?z = "classify_document ?wr ?db sample_classify_request"
  let ?rows = "invoices (fst (snd ?x))"
  have h1: "rq_user_id sample_classify_request \<noteq> []"
    and h2: "file_data sample_classify_request = Some ''JVBERi0=''" and h3: "''JVBERi0='' \<noteq> []"
    by (simp_all add: sample_classify_request_def)
  have h4: "\<not> limit_reached ?db (rq_user_id sample_classify_request)" by code_simp
  have h5: "openai ?w = OpenAI_Content (Some invoice_verdict)"
    "openai ?wb = OpenAI_Content (Some bare_verdict)"
    "openai ?wr = OpenAI_Content (Some invoice_verdict)"
    by (simp_all add: sample_classifier_def)
  have v: "is_invoice invoice_verdict \<and> c_data invoice_verdict = Some sample_data
           \<and> invoice_refusal ?w = None"
    by (simp add: invoice_verdict_def sample_classifier_def)
  have vr: "is_invoice invoice_verdict \<and> c_data invoice_verdict = Some sample_data
           \<and> invoice_refusal ?wr = Some ''refused''"
    by (simp add: invoice_verdict_def sample_classifier_def)
  have vb: "\<not> is_invoice bare_verdict \<or> c_data bare_verdict = None"
    by (simp add: bare_verdict_def)
  have h6: "?x = (fst ?x, fst (snd ?x), snd (snd ?x))"
    "?y = (fst ?y, fst (snd ?y), snd (snd ?y))"
    "?z = (fst ?z, fst (snd ?z), snd (snd ?z))" by simp_all
  note t = verdict_with_data_is_materialized_with_defaults
             [OF h1 h2 h3 h4 h5(1) h6(1), where d = sample_data, THEN conjunct1, THEN mp, OF v]
  note tr = verdict_with_data_is_materialized_with_defaults
             [OF h1 h2 h3 h4 h5(3) h6(3), where d = sample_data and e = "''refused''",
              THEN conjunct2, THEN conjunct1, THEN mp, OF vr]
  note tb = verdict_with_data_is_materialized_with_defaults
             [OF h1 h2 h3 h4 h5(2) h6(2), THEN conjunct2, THEN conjunct2, THEN mp, OF vb]
  have e: "invoices ?db = []" by (simp add: sample_db_def)
  have n: "show_int (cw_now ?w) = ''1793620805000''" by code_simp
  have dt: "iso_date (cw_now ?w) = ''2026-11-02''" by code_simp
  have tr1: "truthy (d_supplier_name sample_data)" "the (d_supplier_name sample_data) = ''ACME''"
    "\<not> truthy (d_document_number sample_data)" "\<not> truthy (d_document_date sample_data)"
    "\<not> truthy (d_category sample_data)"
    by (simp_all add: sample_data_def truthy_def)
  from t have "?rows
      = invoices ?db
        @ [(invoiceData (cw_now ?w) (rq_user_id sample_classify_request) invoice_verdict sample_data)
           \<lparr>inv_id := length (invoices ?db)\<rparr>]"
    by (rule conjunct2 [THEN conjunct1])
  then have "length ?rows = 1" by (simp add: e)
  then have one: "?rows = [last ?rows]"
    by (cases ?rows) auto
  have f1: "supplier_name (last ?rows) = ''ACME''"
    using t [THEN conjunct2, THEN conjunct2, THEN conjunct1] tr1 by (simp only: if_True)
  have f2: "document_number (last ?rows) = ''AUTO-1793620805000''"
  proof -
    have "document_number (last ?rows) = ''AUTO-'' @ ''1793620805000''"
      using t [THEN conjunct2, THEN conjunct2, THEN conjunct2, THEN conjunct1] tr1 n
      by (simp only: if_False)
    then show ?thesis by simp
  qed
  have f3: "document_date (last ?rows) = ''2026-11-02''"
    using t [THEN conjunct2, THEN conjunct2, THEN conjunct2, THEN conjunct2, THEN conjunct1] tr1 dt
    by (simp only: if_False)
  have f4: "category (last ?rows) = default_category"
    using t [THEN conjunct2, THEN conjunct2, THEN conjunct2, THEN conjunct2, THEN conjunct2,
             THEN conjunct2] tr1
    by (simp only: if_False)
  have m: "map g ?rows = [g (last ?rows)]" for g :: "invoice \<Rightarrow> string"
    by (subst one) simp
  have b1: "fst ?y = Classify_Ok bare_verdict None"
    using tb by (rule conjunct2 [THEN conjunct1])
  have "invoices (fst (snd ?y)) = invoices ?db"
    using tb by (rule conjunct2 [THEN conjunct2, THEN conjunct1])
  then have b2: "invoices (fst (snd ?y)) = []" by (simp only: e)
  from tr have "?z = (Classify_Error ''refused'', ?db, snd (snd ?z))"
    by (metis prod.collapse)
  with m [of supplier_name] m [of document_number] m [of document_date] m [of category]
       f1 f2 f3 f4 b1 b2
  show ?thesis by (simp only: simp_thms)
qed

text \<open>
  C8 as stated fails: a verdict with \<^verbatim>\<open>is_invoice = true\<close> and no data object takes the
  rejection branch, and no invoice row is made.
\<close>

theorem invoice_verdict_without_data_is_rejected:
  "classify_document (sample_classifier (OpenAI_Content (Some bare_verdict)))
                     (sample_db [profile_of 0 5]) sample_classify_request
     = (Classify_Ok bare_verdict None, sample_db [profile_of 0 5],
        [OpenAI_Call ''application/pdf'' ''JVBERi0=''])
   \<and> is_invoice bare_verdict
   \<and> invoices (sample_db [profile_of 0 5]) = []"
  by code_simp

subsection \<open>At most one ledger row per message\<close>

text \<open>
  C6: two scans, one after the other, starting from a ledger that satisfies the
  uniqueness constraint. The ledger still satisfies it after each scan. A scan hands no
  message to classify-document that had a ledger row when the scan started, so no
  (user, message) pair is classified in both scans. An insert for a key that is already
  there is refused with an error value and leaves the table as it was; the handler,
  which does not read the result, goes on with its state unchanged, and running the
  per-message code on a message that already has a row adds no second row.
\<close>

theorem sequential_scans_never_duplicate_a_ledger_row:
  assumes "ledger_unique db"
    and "gmail_sync w1 db rq1 = (answer1, db1, calls1)"
    and "gmail_sync w2 db1 rq2 = (answer2, db2, calls2)"
  shows "ledger_unique db1 \<and> ledger_unique db2
         \<and> set (classified calls1) \<inter> set (ledger_keys db) = {}
         \<and> set (classified calls2) \<inter> set (ledger_keys db1) = {}
         \<and> set (classified calls1) \<inter> set (classified calls2) = {}
         \<and> (list_ex (same_key r) (processed_emails db2)
              \<longrightarrow> insert_processed_email r db2
                    = (Some ''duplicate key value violates unique constraint'', db2))
         \<and> ((uid, mid) \<in> set (ledger_keys (s_db st))
              \<longrightarrow> mark_email uid mid outcome reason st = st
                  \<and> ledger_keys (s_db (handle_message w uid tok st mid)) = ledger_keys (s_db st))"
proof -
  note f1 = gmail_sync_frame [OF assms(1) assms(2)]
  then have u1: "ledger_unique db1" by simp
  note f2 = gmail_sync_frame [OF u1 assms(3)]
  have a: "set (classified calls1) \<inter> set (classified calls2) = {}"
    using f1 f2 by blast
  have b: "list_ex (same_key r) (processed_emails db2)
              \<longrightarrow> insert_processed_email r db2
                    = (Some ''duplicate key value violates unique constraint'', db2)"
    by (simp add: insert_processed_email_def)
  have c: "(uid, mid) \<in> set (ledger_keys (s_db st))
              \<longrightarrow> mark_email uid mid outcome reason st = st
                  \<and> ledger_keys (s_db (handle_message w uid tok st mid)) = ledger_keys (s_db st)"
  proof
    assume k: "(uid, mid) \<in> set (ledger_keys (s_db st))"
    then have "list_ex (same_key \<lparr>pe_user_id = uid, email_id = mid, gmail_message_id = mid,
                       invoice_id = None, status = outcome, rejection_reason = reason\<rparr>)
                 (processed_emails (s_db st))"
      by (auto simp: ledger_keys_def list_ex_iff same_key_def)
    then have "mark_email uid mid outcome reason st = st"
      by (simp add: mark_email_def insert_processed_email_def)
    with k handle_message_frame [of w uid tok st mid]
    show "mark_email uid mid outcome reason st = st
          \<and> ledger_keys (s_db (handle_message w uid tok st mid)) = ledger_keys (s_db st)"
      by simp
  qed
  from f1 f2 a b c show ?thesis by blast
qed

theorem sequential_scans_never_duplicate_a_ledger_row_witness:
  "ledger_unique (fst (snd (gmail_sync (sample_world [pdf_part] (OpenAI_Content None))
      (fst (snd (gmail_sync (sample_world [pdf_part] (OpenAI_Content None))
                            (sample_db [profile_of 0 5]) sample_request)))
      sample_request)))
   \<and> classified (snd (snd (gmail_sync (sample_world [pdf_part] (OpenAI_Content None))
                            (sample_db [profile_of 0 5]) sample_request)))
       = [(''u1'', ''m1'')]
   \<and> classified (snd (snd (gmail_sync (sample_world [pdf_part] (OpenAI_Content None))
      (fst (snd (gmail_sync (sample_world [pdf_part] (OpenAI_Content None))
                            (sample_db [profile_of 0 5]) sample_request)))
      sample_request))) = []
   \<and> ledger_keys (fst (snd (gmail_sync (sample_world [pdf_part] (OpenAI_Content None))
      (fst (snd (gmail_sync (sample_world [pdf_part] (OpenAI_Content None))
                            (sample_db [profile_of 0 5]) sample_request)))
      sample_request))) = [(''u1'', ''m1'')]
   \<and> fst (insert_processed_email
            \<lparr>pe_user_id = ''u1'', email_id = ''m1'', gmail_message_id = ''m1'',
             invoice_id = None, status = ''processed'', rejection_reason = None\<rparr>
            (fst (snd (gmail_sync (sample_world [pdf_part] (OpenAI_Content None))
               (fst (snd (gmail_sync (sample_world [pdf_part] (OpenAI_Content None))
                                     (sample_db [profile_of 0 5]) sample_request)))
               sample_request))))
       = Some ''duplicate key value violates unique constraint''
   \<and> mark_email ''u1'' ''m1'' ''processed'' None
        \<lparr>s_db = fst (snd (gmail_sync (sample_world [pdf_part] (OpenAI_Content None))
               (fst (snd (gmail_sync (sample_world [pdf_part] (OpenAI_Content None))
                                     (sample_db [profile_of 0 5]) sample_request)))
               sample_request)),
         processedCount = 0, invoiceCount = 0, trace = []\<rparr>
       = \<lparr>s_db = fst (snd (gmail_sync (sample_world [pdf_part] (OpenAI_Content None))
               (fst (snd (gmail_sync (sample_world [pdf_part] (OpenAI_Content None))
                                     (sample_db [profile_of 0 5]) sample_request)))
               sample_request)),
         processedCount = 0, invoiceCount = 0, trace = []\<rparr>"
proof -
  let ?w = "sample_world [pdf_part] (OpenAI_Content None)"
  let ?db = "sample_db [profile_of 0 5]"
  let ?x = "gmail_sync ?w ?db sample_request"
  let ?y = "gmail_sync ?w (fst (snd ?x)) sample_request"
  let ?row = "\<lparr>pe_user_id = ''u1'', email_id = ''m1'', gmail_message_id = ''m1'',
               invoice_id = None, status = ''processed'', rejection_reason = None\<rparr>"
  let ?s = "\<lparr>s_db = fst (snd ?y), processedCount = 0, invoiceCount = 0, trace = []\<rparr>"
  have h1: "ledger_unique ?db" by (simp add: ledger_unique_def ledger_keys_def sample_db_def)
  have h2: "?x = (fst ?x, fst (snd ?x), snd (snd ?x))" by simp
  have h3: "?y = (fst ?y, fst (snd ?y), snd (snd ?y))" by simp
  note t = sequential_scans_never_duplicate_a_ledger_row
             [OF h1 h2 h3, where r = ?row and uid = "''u1''" and mid = "''m1''" and st = ?s
                and outcome = "''processed''" and reason = None]
  have c1: "classified (snd (snd ?x)) = [(''u1'', ''m1'')]" by code_simp
  have k2: "ledger_keys (fst (snd ?y)) = [(''u1'', ''m1'')]" by code_simp
  from t have u: "ledger_unique (fst (snd ?y))" by blast
  from t have "set (classified (snd (snd ?x))) \<inter> set (classified (snd (snd ?y))) = {}" by blast
  moreover have "set (classified (snd (snd ?y))) \<subseteq> {(''u1'', ''m1'')}" by code_simp
  ultimately have c2: "classified (snd (snd ?y)) = []"
    using c1 by (cases "classified (snd (snd ?y))") auto
  have "list_ex (same_key ?row) (processed_emails (fst (snd ?y)))" by code_simp
  with t have "insert_processed_email ?row (fst (snd ?y))
      = (Some ''duplicate key value violates unique constraint'', fst (snd ?y))"
    by blast
  then have i: "fst (insert_processed_email ?row (fst (snd ?y)))
      = Some ''duplicate key value violates unique constraint''"
    by simp
  have "(''u1'', ''m1'') \<in> set (ledger_keys (s_db ?s))" using k2 by simp
  with t have m: "mark_email ''u1'' ''m1'' ''processed'' None ?s = ?s" by blast
  from u c1 c2 k2 i m show ?thesis by blast
qed

end
